theory Spec2Isabelle
  imports Complex_Main
begin

section \<open>Tensor entries and tensors\<close>

text \<open>
  The notebooks compute with tensors of floating-point numbers. An entry is modelled as an
  exact real number or the not-a-number value \<open>NaN\<close>; rounding and the infinities are not
  modelled. Arithmetic and comparisons treat \<open>NaN\<close> as IEEE does: an operation with a
  \<open>NaN\<close> argument is \<open>NaN\<close>, a comparison with a \<open>NaN\<close> argument is false.
\<close>

datatype tval = NaN | Val real

datatype error =
  ZeroDivisionError | RuntimeError | IndexError | UnboundLocalError | ValueError

definition bind_err :: "error + 'a \<Rightarrow> ('a \<Rightarrow> error + 'b) \<Rightarrow> error + 'b" where
  "bind_err r f = (case r of Inl e \<Rightarrow> Inl e | Inr v \<Rightarrow> f v)"

fun tadd :: "tval \<Rightarrow> tval \<Rightarrow> tval" where
  "tadd (Val a) (Val b) = Val (a + b)"
| "tadd _ _ = NaN"

fun tmul :: "tval \<Rightarrow> tval \<Rightarrow> tval" where
  "tmul (Val a) (Val b) = Val (a * b)"
| "tmul _ _ = NaN"

fun tgt :: "tval \<Rightarrow> real \<Rightarrow> bool" where
  "tgt (Val a) c = (a > c)"
| "tgt NaN c = False"

fun tge :: "tval \<Rightarrow> real \<Rightarrow> bool" where
  "tge (Val a) c = (a \<ge> c)"
| "tge NaN c = False"

fun teq :: "tval \<Rightarrow> tval \<Rightarrow> bool" where
  "teq (Val a) (Val b) = (a = b)"
| "teq _ _ = False"

fun isnan :: "tval \<Rightarrow> bool" where
  "isnan NaN = True"
| "isnan (Val a) = False"

definition sigmoid :: "real \<Rightarrow> real" where
  "sigmoid x = 1 / (1 + exp (- x))"

fun tsigmoid :: "tval \<Rightarrow> tval" where
  "tsigmoid (Val a) = Val (sigmoid a)"
| "tsigmoid NaN = NaN"

text \<open>
  A two-dimensional tensor of shape \<open>[length (rows t), ncols t]\<close>. The column count is
  kept with the tensor because a tensor with no rows still has one (the shape
  \<open>[0, 38]\<close> printed by the cell-complex notebook). Every row of a tensor has
  \<open>ncols t\<close> entries (\<open>rectangular\<close>). A one-dimensional tensor is a list of entries.
\<close>

record tensor =
  ncols :: nat
  rows :: "tval list list"

definition nrows :: "tensor \<Rightarrow> nat" where
  "nrows t = length (rows t)"

definition rectangular :: "tensor \<Rightarrow> bool" where
  "rectangular t = list_all (\<lambda>r. length r = ncols t) (rows t)"

definition column :: "tensor \<Rightarrow> nat \<Rightarrow> tval list" where
  "column t j = map (\<lambda>r. r ! j) (rows t)"

subsection \<open>Reductions used by the notebooks\<close>

fun finite_entries :: "tval list \<Rightarrow> real list" where
  "finite_entries [] = []"
| "finite_entries (NaN # vs) = finite_entries vs"
| "finite_entries (Val a # vs) = a # finite_entries vs"

text \<open>
  \<open>torch.nanmean(x, dim=0)\<close>: for each column the mean of the entries that are not
  \<open>NaN\<close>; a column with no such entry (in particular a column of a tensor with no rows)
  gives 0/0, which is \<open>NaN\<close>.
\<close>

definition nanmean_list :: "tval list \<Rightarrow> tval" where
  "nanmean_list vs =
     (let xs = finite_entries vs
      in if xs = [] then NaN else Val (sum_list xs / real (length xs)))"

definition nanmean_dim0 :: "tensor \<Rightarrow> tval list" where
  "nanmean_dim0 t = map (\<lambda>j. nanmean_list (column t j)) [0..<ncols t]"

text \<open>The assignment \<open>v[torch.isnan(v)] = 0\<close> on a one-dimensional tensor.\<close>

definition nan_to_zero :: "tval list \<Rightarrow> tval list" where
  "nan_to_zero v = map (\<lambda>x. if isnan x then Val 0 else x) v"

text \<open>
  \<open>a + b\<close> on one-dimensional tensors: entrywise for equal lengths, a tensor of length 1
  is broadcast, any other pair of lengths raises.
\<close>

definition vec_add :: "tval list \<Rightarrow> tval list \<Rightarrow> error + tval list" where
  "vec_add a b =
     (if length a = length b then Inr (map2 tadd a b)
      else if length a = 1 then Inr (map (tadd (hd a)) b)
      else if length b = 1 then Inr (map (\<lambda>x. tadd x (hd b)) a)
      else Inl RuntimeError)"

text \<open>
  \<open>torch.max(x, dim=0)[0]\<close>: the maximum of each column, \<open>NaN\<close> if the column holds a
  \<open>NaN\<close>; it raises on a tensor with no rows.
\<close>

fun tmax :: "tval \<Rightarrow> tval \<Rightarrow> tval" where
  "tmax (Val a) (Val b) = Val (max a b)"
| "tmax _ _ = NaN"

fun tmax_list :: "tval list \<Rightarrow> tval" where
  "tmax_list [] = NaN"
| "tmax_list [v] = v"
| "tmax_list (v # w # vs) = tmax v (tmax_list (w # vs))"

definition max_dim0 :: "tensor \<Rightarrow> error + tval list" where
  "max_dim0 t =
     (if rows t = [] then Inl IndexError
      else Inr (map (\<lambda>j. tmax_list (column t j)) [0..<ncols t]))"

text \<open>
  \<open>v.argmax()\<close> on a one-dimensional tensor: the index of the first maximal entry, where
  \<open>NaN\<close> counts as greater than every number; it raises on an empty tensor.
\<close>

fun tbetter :: "tval \<Rightarrow> tval \<Rightarrow> bool" where
  "tbetter (Val a) (Val b) = (a > b)"
| "tbetter NaN (Val b) = True"
| "tbetter _ NaN = False"

fun argmax_from :: "nat \<Rightarrow> tval \<Rightarrow> nat \<Rightarrow> tval list \<Rightarrow> nat" where
  "argmax_from best bv i [] = best"
| "argmax_from best bv i (v # vs) =
     (if tbetter v bv then argmax_from i v (Suc i) vs else argmax_from best bv (Suc i) vs)"

definition argmax :: "tval list \<Rightarrow> error + nat" where
  "argmax v = (case v of [] \<Rightarrow> Inl RuntimeError | x # xs \<Rightarrow> Inr (argmax_from 0 x 1 xs))"

subsection \<open>Comparing tensors\<close>

text \<open>
  \<open>torch.eq(a, b)\<close> (and \<open>a == b\<close>) on two-dimensional tensors, with broadcasting: the
  sizes of a dimension must be equal or one of them 1, otherwise the call raises.
  \<open>.all(dim=1)\<close> is true for a row whose entries are all true, and
  \<open>.float().mean()\<close> of a list of truth values is the fraction of true ones, \<open>NaN\<close> for
  the empty list.
\<close>

definition bdim :: "nat \<Rightarrow> nat \<Rightarrow> nat option" where
  "bdim a b = (if a = b then Some a else if a = 1 then Some b else if b = 1 then Some a else None)"

definition expand :: "nat \<Rightarrow> 'a list \<Rightarrow> 'a list" where
  "expand n xs = (if length xs = n then xs else replicate n (hd xs))"

definition tensor_eq :: "tensor \<Rightarrow> tensor \<Rightarrow> error + bool list list" where
  "tensor_eq a b =
     (case bdim (nrows a) (nrows b) of
        None \<Rightarrow> Inl RuntimeError
      | Some n \<Rightarrow>
          (case bdim (ncols a) (ncols b) of
             None \<Rightarrow> Inl RuntimeError
           | Some c \<Rightarrow>
               Inr (map2 (\<lambda>ra rb. map2 teq (expand c ra) (expand c rb))
                      (expand n (rows a)) (expand n (rows b)))))"

definition all_dim1 :: "bool list list \<Rightarrow> bool list" where
  "all_dim1 bs = map (list_all id) bs"

definition mean_bool :: "bool list \<Rightarrow> tval" where
  "mean_bool bs =
     (if bs = [] then NaN else Val (real (length (filter id bs)) / real (length bs)))"

text \<open>\<open>numpy.mean\<close> of a list of numbers; \<open>nan\<close> for the empty list.\<close>

definition np_mean :: "real list \<Rightarrow> tval" where
  "np_mean xs = (if xs = [] then NaN else Val (sum_list xs / real (length xs)))"

text \<open>The slices \<open>t[:k]\<close> and \<open>t[-k:]\<close> of the rows of a tensor (\<open>t[-0:]\<close> is all of it).\<close>

definition first_rows :: "nat \<Rightarrow> tensor \<Rightarrow> tensor" where
  "first_rows k t = t\<lparr>rows := take k (rows t)\<rparr>"

definition last_rows :: "nat \<Rightarrow> tensor \<Rightarrow> tensor" where
  "last_rows k t = (if k = 0 then t else t\<lparr>rows := drop (length (rows t) - k) (rows t)\<rparr>)"

subsection \<open>The linear layer\<close>

text \<open>
  \<open>torch.nn.Linear(in_features, out_features)\<close> holds a weight tensor of shape
  \<open>[out_features, in_features]\<close> and a bias of length \<open>out_features\<close>; applied to a
  tensor whose last dimension is \<open>in_features\<close> it maps every row \<open>r\<close> to
  \<open>r W\<^sup>T + b\<close>, and it raises on any other last dimension.
\<close>

record linear =
  weight :: tensor
  bias :: "tval list"

definition in_features :: "linear \<Rightarrow> nat" where
  "in_features l = ncols (weight l)"

definition out_features :: "linear \<Rightarrow> nat" where
  "out_features l = length (rows (weight l))"

definition dot :: "tval list \<Rightarrow> tval list \<Rightarrow> tval" where
  "dot a b = foldr tadd (map2 tmul a b) (Val 0)"

definition linear_row :: "linear \<Rightarrow> tval list \<Rightarrow> tval list" where
  "linear_row l r =
     map (\<lambda>j. tadd (dot r (rows (weight l) ! j)) (bias l ! j)) [0..<out_features l]"

definition linear_apply :: "linear \<Rightarrow> tensor \<Rightarrow> error + tensor" where
  "linear_apply l x =
     (if ncols x \<noteq> in_features l then Inl RuntimeError
      else Inr \<lparr>ncols = out_features l, rows = map (linear_row l) (rows x)\<rparr>)"

definition linear_vec :: "linear \<Rightarrow> tval list \<Rightarrow> error + tval list" where
  "linear_vec l v =
     (if length v \<noteq> in_features l then Inl RuntimeError else Inr (linear_row l v))"

definition tensor_sigmoid :: "tensor \<Rightarrow> tensor" where
  "tensor_sigmoid t = t\<lparr>rows := map (map tsigmoid) (rows t)\<rparr>"

section \<open>The models\<close>

subsection \<open>Message-passing layers\<close>

text \<open>
  Modelled from the spec: the layer classes \<open>CCXNLayer\<close>, \<open>HSNLayer\<close> and
  \<open>TemplateLayer\<close> of the package are missing from the sources. The spec describes a
  message-passing layer as a parametrised function that combines the features of a rank
  with features aggregated through a structure matrix, and says that no stochastic or
  mode-dependent layer is present. A layer is therefore a module with its own training
  flag (as every \<open>torch.nn.Module\<close> has) and a function of that flag and of the inputs of
  the call, which may raise; \<open>mode_independent\<close> says that the function ignores the flag.
\<close>

record ('a, 'b) layer =
  layer_training :: bool
  layer_fun :: "bool \<Rightarrow> 'a \<Rightarrow> error + 'b"

definition apply_layer :: "('a, 'b) layer \<Rightarrow> 'a \<Rightarrow> error + 'b" where
  "apply_layer l x = layer_fun l (layer_training l) x"

definition layer_train :: "bool \<Rightarrow> ('a, 'b) layer \<Rightarrow> ('a, 'b) layer" where
  "layer_train b l = l\<lparr>layer_training := b\<rparr>"

definition mode_independent :: "('a, 'b) layer \<Rightarrow> bool" where
  "mode_independent l = (\<forall>b x. layer_fun l b x = layer_fun l True x)"

subsection \<open>CCXN (cell-complex notebook)\<close>

text \<open>
  The layers are held in a \<open>ModuleList\<close>, so \<open>model.train(b)\<close> sets the flag of the model
  and of every layer. \<open>forward\<close> runs the layers in order, applies the three linear heads,
  takes the mean of every rank over its cells with \<open>NaN\<close> replaced by zero, and returns
  the sum of the three means. The variable \<open>x_2\<close> is first bound by the loop over the
  layers, so with no layer the call \<open>self.lin_2(x_2)\<close> raises.
\<close>

type_synonym ccxn_layer = "(tensor \<times> tensor \<times> tensor \<times> tensor, tensor \<times> tensor \<times> tensor) layer"

record ccxn =
  ccxn_training :: bool
  ccxn_layers :: "ccxn_layer list"
  lin_0 :: linear
  lin_1 :: linear
  lin_2 :: linear

definition ccxn_train :: "bool \<Rightarrow> ccxn \<Rightarrow> ccxn" where
  "ccxn_train b m = m\<lparr>ccxn_training := b, ccxn_layers := map (layer_train b) (ccxn_layers m)\<rparr>"

fun ccxn_layers_loop ::
  "ccxn_layer list \<Rightarrow> tensor \<Rightarrow> tensor \<Rightarrow> tensor option \<Rightarrow> tensor \<Rightarrow> tensor
    \<Rightarrow> error + tensor \<times> tensor \<times> tensor option" where
  "ccxn_layers_loop [] x_0 x_1 x_2 n00 n12 = Inr (x_0, x_1, x_2)"
| "ccxn_layers_loop (l # ls) x_0 x_1 x_2 n00 n12 =
     bind_err (apply_layer l (x_0, x_1, n00, n12))
       (\<lambda>(y_0, y_1, y_2). ccxn_layers_loop ls y_0 y_1 (Some y_2) n00 n12)"

definition cells_mean :: "tensor \<Rightarrow> tval list" where
  "cells_mean x = nan_to_zero (nanmean_dim0 x)"

definition ccxn_pool :: "tensor \<Rightarrow> tensor \<Rightarrow> tensor \<Rightarrow> error + tval list" where
  "ccxn_pool x_0 x_1 x_2 =
     (let two_dimensional_cells_mean = cells_mean x_2;
          one_dimensional_cells_mean = cells_mean x_1;
          zero_dimensional_cells_mean = cells_mean x_0
      in bind_err (vec_add two_dimensional_cells_mean one_dimensional_cells_mean)
           (\<lambda>s. vec_add s zero_dimensional_cells_mean))"

definition ccxn_forward ::
  "ccxn \<Rightarrow> tensor \<Rightarrow> tensor \<Rightarrow> tensor \<Rightarrow> tensor \<Rightarrow> error + tval list" where
  "ccxn_forward m x_0 x_1 neighborhood_0_to_0 neighborhood_1_to_2 =
     bind_err (ccxn_layers_loop (ccxn_layers m) x_0 x_1 None
                 neighborhood_0_to_0 neighborhood_1_to_2)
       (\<lambda>(h_0, h_1, h_2).
          bind_err (linear_apply (lin_0 m) h_0) (\<lambda>y_0.
          bind_err (linear_apply (lin_1 m) h_1) (\<lambda>y_1.
          (case h_2 of
             None \<Rightarrow> Inl UnboundLocalError
           | Some f_2 \<Rightarrow>
               bind_err (linear_apply (lin_2 m) f_2) (\<lambda>y_2. ccxn_pool y_0 y_1 y_2)))))"

subsection \<open>HSN (simplicial notebook)\<close>

text \<open>
  The layers are kept in a plain Python list (\<open>self.layers = layers\<close>), which is not
  registered with the module: \<open>model.train(b)\<close> sets the flag of the model only and
  leaves the layers' flags as they are. The head is \<open>Linear(channels, 2)\<close>, and
  \<open>forward\<close> returns the sigmoid of its output.
\<close>

type_synonym hsn_layer = "(tensor \<times> tensor \<times> tensor, tensor) layer"

record hsn =
  hsn_training :: bool
  hsn_layers :: "hsn_layer list"
  hsn_linear :: linear

definition hsn_train :: "bool \<Rightarrow> hsn \<Rightarrow> hsn" where
  "hsn_train b m = m\<lparr>hsn_training := b\<rparr>"

fun hsn_layers_loop :: "hsn_layer list \<Rightarrow> tensor \<Rightarrow> tensor \<Rightarrow> tensor \<Rightarrow> error + tensor" where
  "hsn_layers_loop [] x_0 incidence_1 adjacency_0 = Inr x_0"
| "hsn_layers_loop (l # ls) x_0 incidence_1 adjacency_0 =
     bind_err (apply_layer l (x_0, incidence_1, adjacency_0))
       (\<lambda>y_0. hsn_layers_loop ls y_0 incidence_1 adjacency_0)"

definition hsn_forward :: "hsn \<Rightarrow> tensor \<Rightarrow> tensor \<Rightarrow> tensor \<Rightarrow> error + tensor" where
  "hsn_forward m x_0 incidence_1 adjacency_0 =
     bind_err (hsn_layers_loop (hsn_layers m) x_0 incidence_1 adjacency_0)
       (\<lambda>h. bind_err (linear_apply (hsn_linear m) h) (\<lambda>z. Inr (tensor_sigmoid z)))"

subsection \<open>TemplateNN (hypergraph notebook)\<close>

text \<open>
  The layers are held in a \<open>ModuleList\<close>. \<open>forward\<close> runs the layers, takes the maximum
  of every column, applies \<open>Linear(channels_edge, 1)\<close> and the sigmoid, and returns entry
  0 of the result.
\<close>

type_synonym template_layer = "(tensor \<times> tensor, tensor) layer"

record template_nn =
  template_training :: bool
  template_layers :: "template_layer list"
  template_linear :: linear

definition template_train :: "bool \<Rightarrow> template_nn \<Rightarrow> template_nn" where
  "template_train b m =
     m\<lparr>template_training := b, template_layers := map (layer_train b) (template_layers m)\<rparr>"

fun template_layers_loop :: "template_layer list \<Rightarrow> tensor \<Rightarrow> tensor \<Rightarrow> error + tensor" where
  "template_layers_loop [] x_1 incidence_1 = Inr x_1"
| "template_layers_loop (l # ls) x_1 incidence_1 =
     bind_err (apply_layer l (x_1, incidence_1)) (\<lambda>y_1. template_layers_loop ls y_1 incidence_1)"

definition index0 :: "tval list \<Rightarrow> error + tval" where
  "index0 v = (case v of [] \<Rightarrow> Inl IndexError | a # _ \<Rightarrow> Inr a)"

definition template_forward :: "template_nn \<Rightarrow> tensor \<Rightarrow> tensor \<Rightarrow> error + tval" where
  "template_forward m x_1 incidence_1 =
     bind_err (template_layers_loop (template_layers m) x_1 incidence_1) (\<lambda>h.
     bind_err (max_dim0 h) (\<lambda>pooled_x.
     bind_err (linear_vec (template_linear m) pooled_x) (\<lambda>z. index0 (map tsigmoid z))))"

section \<open>The training and evaluation loops\<close>

text \<open>
  What a run prints: after every epoch the line
  \<open>Epoch: i loss: l Train_acc: a\<close>, and after an evaluation pass the line
  \<open>Test_acc: a\<close>. The lines hold the values that are formatted (to four decimals by the
  notebooks). The state of a run is the model together with the state of its optimiser,
  and the lines printed so far.
\<close>

datatype line = Epoch_line int tval tval | Test_line tval

record 'm run_state =
  model :: 'm
  printed :: "line list"

subsection \<open>The loop of the cell-complex and hypergraph notebooks\<close>

text \<open>
  The two notebooks run the same loop, statement by statement, over different models:
  they differ in the call of the model, in the loss, and in the expression added to
  \<open>correct\<close>. Those are the fields of a \<open>notebook\<close>; \<open>backward_step\<close> stands for
  \<open>opt.zero_grad()\<close>, \<open>loss.backward()\<close> and \<open>opt.step()\<close> on one sample, which belong to
  the tensor library. A sample is a pair of the model's inputs and the label.
\<close>

record ('m, 'x, 'y, 'p) notebook =
  set_train :: "'m \<Rightarrow> 'm"
  model_call :: "'m \<Rightarrow> 'x \<Rightarrow> error + 'p"
  crit :: "'p \<Rightarrow> 'y \<Rightarrow> error + real"
  train_hit :: "'p \<Rightarrow> 'y \<Rightarrow> error + nat"
  test_hit :: "'p \<Rightarrow> 'y \<Rightarrow> error + nat"
  backward_step :: "'m \<Rightarrow> 'x \<Rightarrow> 'y \<Rightarrow> 'm"

record counters =
  epoch_loss :: "real list"
  num_samples :: nat
  correct :: nat

definition counters0 :: counters where
  "counters0 = \<lparr>epoch_loss = [], num_samples = 0, correct = 0\<rparr>"

fun train_pass ::
  "('m, 'x, 'y, 'p) notebook \<Rightarrow> 'm \<Rightarrow> counters \<Rightarrow> ('x \<times> 'y) list \<Rightarrow> error + 'm \<times> counters" where
  "train_pass nb m c [] = Inr (m, c)"
| "train_pass nb m c ((x, y) # rest) =
     bind_err (model_call nb m x) (\<lambda>y_hat.
     bind_err (crit nb y_hat y) (\<lambda>loss.
     bind_err (train_hit nb y_hat y) (\<lambda>h.
       train_pass nb (backward_step nb m x y)
         \<lparr>epoch_loss = epoch_loss c @ [loss], num_samples = num_samples c + 1,
          correct = correct c + h\<rparr> rest)))"

fun test_pass ::
  "('m, 'x, 'y, 'p) notebook \<Rightarrow> 'm \<Rightarrow> nat \<times> nat \<Rightarrow> ('x \<times> 'y) list \<Rightarrow> error + nat \<times> nat" where
  "test_pass nb m (n, k) [] = Inr (n, k)"
| "test_pass nb m (n, k) ((x, y) # rest) =
     bind_err (model_call nb m x) (\<lambda>y_hat.
     bind_err (test_hit nb y_hat y) (\<lambda>h. test_pass nb m (n + 1, k + h) rest))"

text \<open>\<open>correct / num_samples\<close> on Python integers.\<close>

definition py_div :: "nat \<Rightarrow> nat \<Rightarrow> error + real" where
  "py_div a b = (if b = 0 then Inl ZeroDivisionError else Inr (real a / real b))"

definition evaluation ::
  "('m, 'x, 'y, 'p) notebook \<Rightarrow> ('x \<times> 'y) list \<Rightarrow> 'm run_state \<Rightarrow> error + 'm run_state" where
  "evaluation nb samples_test s =
     bind_err (test_pass nb (model s) (0, 0) samples_test) (\<lambda>(n, k).
     bind_err (py_div k n) (\<lambda>test_acc.
       Inr (s\<lparr>printed := printed s @ [Test_line (Val test_acc)]\<rparr>)))"

definition run_epoch ::
  "('m, 'x, 'y, 'p) notebook \<Rightarrow> int \<Rightarrow> ('x \<times> 'y) list \<Rightarrow> ('x \<times> 'y) list
    \<Rightarrow> 'm run_state \<Rightarrow> int \<Rightarrow> error + 'm run_state" where
  "run_epoch nb test_interval samples_train samples_test s epoch_i =
     bind_err (train_pass nb (set_train nb (model s)) counters0 samples_train) (\<lambda>(m, c).
     bind_err (py_div (correct c) (num_samples c)) (\<lambda>train_acc.
       let s1 = \<lparr>model = m,
                 printed = printed s @
                   [Epoch_line epoch_i (np_mean (epoch_loss c)) (Val train_acc)]\<rparr>
       in if test_interval = 0 then Inl ZeroDivisionError
          else if epoch_i mod test_interval = 0 then evaluation nb samples_test s1
          else Inr s1))"

fun run_epochs ::
  "('m, 'x, 'y, 'p) notebook \<Rightarrow> int \<Rightarrow> ('x \<times> 'y) list \<Rightarrow> ('x \<times> 'y) list
    \<Rightarrow> 'm run_state \<Rightarrow> int list \<Rightarrow> error + 'm run_state" where
  "run_epochs nb test_interval samples_train samples_test s [] = Inr s"
| "run_epochs nb test_interval samples_train samples_test s (epoch_i # is) =
     bind_err (run_epoch nb test_interval samples_train samples_test s epoch_i)
       (\<lambda>s'. run_epochs nb test_interval samples_train samples_test s' is)"

text \<open>\<open>for epoch_i in range(1, num_epochs + 1)\<close>.\<close>

definition run ::
  "('m, 'x, 'y, 'p) notebook \<Rightarrow> int \<Rightarrow> int \<Rightarrow> ('x \<times> 'y) list \<Rightarrow> ('x \<times> 'y) list
    \<Rightarrow> 'm run_state \<Rightarrow> error + 'm run_state" where
  "run nb num_epochs test_interval samples_train samples_test s =
     run_epochs nb test_interval samples_train samples_test s [1..num_epochs]"

text \<open>
  The cell-complex notebook: the model is called as
  \<open>model(x_0, x_1, adjacency_0, incidence_2_t)\<close> on a sample
  \<open>(x_0, x_1, incidence_2_t, adjacency_0, y)\<close>, and both passes add
  \<open>(y_hat.argmax() == y).sum().item()\<close> to \<open>correct\<close>.
\<close>

definition ccxn_hit :: "tval list \<Rightarrow> int \<Rightarrow> error + nat" where
  "ccxn_hit y_hat y = bind_err (argmax y_hat) (\<lambda>i. Inr (if int i = y then 1 else 0))"

definition ccxn_notebook ::
  "(tval list \<Rightarrow> int \<Rightarrow> error + real)
    \<Rightarrow> (ccxn \<times> 'o \<Rightarrow> tensor \<times> tensor \<times> tensor \<times> tensor \<Rightarrow> int \<Rightarrow> ccxn \<times> 'o)
    \<Rightarrow> (ccxn \<times> 'o, tensor \<times> tensor \<times> tensor \<times> tensor, int, tval list) notebook" where
  "ccxn_notebook loss step =
     \<lparr>set_train = (\<lambda>(m, opt). (ccxn_train True m, opt)),
      model_call = (\<lambda>(m, opt) (x_0, x_1, incidence_2_t, adjacency_0).
         ccxn_forward m x_0 x_1 adjacency_0 incidence_2_t),
      crit = loss,
      train_hit = ccxn_hit,
      test_hit = ccxn_hit,
      backward_step = step\<rparr>"

definition ccxn_samples ::
  "tensor list \<Rightarrow> tensor list \<Rightarrow> tensor list \<Rightarrow> tensor list \<Rightarrow> int list
    \<Rightarrow> ((tensor \<times> tensor \<times> tensor \<times> tensor) \<times> int) list" where
  "ccxn_samples x_0s x_1s incidence_2_ts adjacency_0s ys =
     zip (zip x_0s (zip x_1s (zip incidence_2_ts adjacency_0s))) ys"

text \<open>
  The hypergraph notebook: the model is called as \<open>model(x_1, incidence_1)\<close>, the label is
  converted to a float, and both passes add
  \<open>((y_hat > threshold_probability_positive_class) == y.bool()).sum().item()\<close>.
\<close>

definition threshold_probability_positive_class :: real where
  "threshold_probability_positive_class = 0.5"

definition template_hit :: "tval \<Rightarrow> int \<Rightarrow> error + nat" where
  "template_hit y_hat y =
     Inr (if tgt y_hat threshold_probability_positive_class = (y \<noteq> 0) then 1 else 0)"

definition template_notebook ::
  "(tval \<Rightarrow> int \<Rightarrow> error + real)
    \<Rightarrow> (template_nn \<times> 'o \<Rightarrow> tensor \<times> tensor \<Rightarrow> int \<Rightarrow> template_nn \<times> 'o)
    \<Rightarrow> (template_nn \<times> 'o, tensor \<times> tensor, int, tval) notebook" where
  "template_notebook loss step =
     \<lparr>set_train = (\<lambda>(m, opt). (template_train True m, opt)),
      model_call = (\<lambda>(m, opt) (x_1, incidence_1). template_forward m x_1 incidence_1),
      crit = loss,
      train_hit = template_hit,
      test_hit = template_hit,
      backward_step = step\<rparr>"

definition template_samples ::
  "tensor list \<Rightarrow> tensor list \<Rightarrow> int list \<Rightarrow> ((tensor \<times> tensor) \<times> int) list" where
  "template_samples x_1s incidence_1s ys = zip (zip x_1s incidence_1s) ys"

subsection \<open>The loop of the simplicial notebook\<close>

text \<open>
  The labels of the 34 nodes, in one-hot form; the first four rows are kept for testing
  and the last thirty for training.
\<close>

definition y_array :: "int list" where
  "y_array = [1, 1, 1, 1, 1, 1, 1, 1, 1, 0, 1, 1, 1, 1, 0, 0, 1, 1, 0, 1, 0, 1,
              0, 0, 0, 0, 0, 0, 0, 0, 0, 0, 0, 0]"

definition y_true :: tensor where
  "y_true = \<lparr>ncols = 2, rows = map (\<lambda>v. [Val (of_int v), Val (of_int (1 - v))]) y_array\<rparr>"

definition y_test :: tensor where
  "y_test = first_rows 4 y_true"

definition y_train :: tensor where
  "y_train = last_rows 30 y_true"

text \<open>
  Training accuracy: \<open>y_pred = torch.where(y_hat > 0.5, torch.tensor(1), torch.tensor(0))\<close>
  and \<open>(y_pred == y_hat).all(dim=1).float().mean().item()\<close>.
\<close>

definition where_gt :: "real \<Rightarrow> tval \<Rightarrow> tval" where
  "where_gt c v = (if tgt v c then Val 1 else Val 0)"

definition hsn_y_pred :: "tensor \<Rightarrow> tensor" where
  "hsn_y_pred y_hat = y_hat\<lparr>rows := map (map (where_gt 0.5)) (rows y_hat)\<rparr>"

definition hsn_accuracy :: "tensor \<Rightarrow> error + tval" where
  "hsn_accuracy y_hat =
     bind_err (tensor_eq (hsn_y_pred y_hat) y_hat) (\<lambda>e. Inr (mean_bool (all_dim1 e)))"

text \<open>
  Test accuracy: \<open>y_pred_test = torch.sigmoid(y_hat_test).ge(0.5).float()\<close> and
  \<open>torch.eq(y_pred_test[: len(y_test)], y_test).all(dim=1).float().mean().item()\<close>.
\<close>

definition ge_float :: "real \<Rightarrow> tval \<Rightarrow> tval" where
  "ge_float c v = (if tge v c then Val 1 else Val 0)"

definition hsn_y_pred_test :: "tensor \<Rightarrow> tensor" where
  "hsn_y_pred_test y_hat_test =
     y_hat_test\<lparr>rows := map (map (\<lambda>v. ge_float 0.5 (tsigmoid v))) (rows y_hat_test)\<rparr>"

definition hsn_test_accuracy :: "tensor \<Rightarrow> tensor \<Rightarrow> error + tval" where
  "hsn_test_accuracy y_hat_test labels =
     bind_err (tensor_eq (first_rows (nrows labels) (hsn_y_pred_test y_hat_test)) labels)
       (\<lambda>e. Inr (mean_bool (all_dim1 e)))"

text \<open>
  One epoch. The loss \<open>binary_cross_entropy_with_logits\<close> and the optimiser belong to the
  tensor library: \<open>bce\<close> is the loss, \<open>step\<close> stands for \<open>optimizer.zero_grad()\<close>,
  \<open>loss.backward()\<close> and \<open>optimizer.step()\<close>. The training accuracy is computed from the
  output of the forward pass made before the step, the test accuracy from a second
  forward pass.
\<close>

definition hsn_epoch ::
  "(tensor \<Rightarrow> tensor \<Rightarrow> error + real) \<Rightarrow> (hsn \<times> 'o \<Rightarrow> hsn \<times> 'o) \<Rightarrow> int
    \<Rightarrow> tensor \<Rightarrow> tensor \<Rightarrow> tensor \<Rightarrow> (hsn \<times> 'o) run_state \<Rightarrow> int
    \<Rightarrow> error + (hsn \<times> 'o) run_state" where
  "hsn_epoch bce step test_interval x_nodes incidence_1 adjacency_0 s epoch_i =
     (let m = hsn_train True (fst (model s)); optimizer = snd (model s)
      in bind_err (hsn_forward m x_nodes incidence_1 adjacency_0) (\<lambda>y_hat.
         bind_err (bce (last_rows (nrows y_train) y_hat) y_train) (\<lambda>loss.
         let stepped = step (m, optimizer)
         in bind_err (hsn_accuracy y_hat) (\<lambda>accuracy.
            let s1 = \<lparr>model = stepped,
                      printed = printed s @ [Epoch_line epoch_i (np_mean [loss]) accuracy]\<rparr>
            in if test_interval = 0 then Inl ZeroDivisionError
               else if epoch_i mod test_interval = 0 then
                 bind_err (hsn_forward (fst stepped) x_nodes incidence_1 adjacency_0)
                   (\<lambda>y_hat_test.
                 bind_err (hsn_test_accuracy y_hat_test y_test) (\<lambda>test_accuracy.
                   Inr (s1\<lparr>printed := printed s1 @ [Test_line test_accuracy]\<rparr>)))
               else Inr s1))))"

section \<open>Splitting the samples\<close>

text \<open>
  The cell-complex and hypergraph notebooks call scikit-learn's
  \<open>train_test_split(xs, test_size=f, shuffle=False)\<close> with a float \<open>f\<close>. The function is
  not part of the repository; it is modelled from its documented behaviour: \<open>f\<close>
  must lie strictly between 0 and 1, the test part has \<open>\<lceil>f * n\<rceil>\<close> samples and the training
  part the remaining ones, an empty training part is refused, and without shuffling the
  training part is the samples at the indices \<open>0, \<dots>, n_train - 1\<close> and the test part those
  at the following \<open>n_test\<close> indices. The fraction is an exact real number here.
\<close>

definition train_test_split :: "'a list \<Rightarrow> real \<Rightarrow> error + 'a list \<times> 'a list" where
  "train_test_split xs test_size =
     (let n_samples = length xs
      in if test_size \<le> 0 \<or> test_size \<ge> 1 then Inl ValueError
         else
           let n_test = nat \<lceil>test_size * real n_samples\<rceil>;
               n_train = n_samples - n_test
           in if n_train = 0 then Inl ValueError
              else Inr (take n_train xs, take n_test (drop n_train xs)))"

section \<open>Concrete inputs\<close>

text \<open>
  A cell complex with two nodes, one edge and no face, and a CCXN model with one layer that
  passes the node and edge features on and returns no face features (a tensor of shape
  \<open>[0, 1]\<close>); the heads have one input feature and two classes.
\<close>

definition ccxn_example :: ccxn where
  "ccxn_example =
     \<lparr>ccxn_training = True,
      ccxn_layers =
        [\<lparr>layer_training = True,
          layer_fun = (\<lambda>b (x_0, x_1, n00, n12). Inr (x_0, x_1, \<lparr>ncols = 1, rows = []\<rparr>))\<rparr>],
      lin_0 = \<lparr>weight = \<lparr>ncols = 1, rows = [[Val 1], [Val 2]]\<rparr>, bias = [Val 0, Val 1]\<rparr>,
      lin_1 = \<lparr>weight = \<lparr>ncols = 1, rows = [[Val 1], [Val 0]]\<rparr>, bias = [Val 0, Val 0]\<rparr>,
      lin_2 = \<lparr>weight = \<lparr>ncols = 1, rows = [[Val 1], [Val 1]]\<rparr>, bias = [Val 5, Val 5]\<rparr>\<rparr>"

definition nodes_example :: tensor where
  "nodes_example = \<lparr>ncols = 1, rows = [[Val 1], [Val 3]]\<rparr>"

definition edges_example :: tensor where
  "edges_example = \<lparr>ncols = 1, rows = [[Val 4]]\<rparr>"

definition no_matrix :: tensor where
  "no_matrix = \<lparr>ncols = 0, rows = []\<rparr>"

text \<open>
  The node features of the simplicial notebook (the one-hot encoding of the 34 nodes), and
  two HSN models without layers whose head has a zero weight: one with the bias
  \<open>[1, -1]\<close>, one with a zero bias. \<open>hsn_example_output\<close> and \<open>hsn_zero_output\<close> are what
  their forward passes return.
\<close>

definition karate_x :: tensor where
  "karate_x = \<lparr>ncols = 34,
     rows = map (\<lambda>i. map (\<lambda>j. Val (if i = j then 1 else 0)) [0..<34]) [0..<34]\<rparr>"

definition hsn_example :: hsn where
  "hsn_example =
     \<lparr>hsn_training = True, hsn_layers = [],
      hsn_linear = \<lparr>weight = \<lparr>ncols = 34, rows = [replicate 34 (Val 0), replicate 34 (Val 0)]\<rparr>,
                    bias = [Val 1, Val (- 1)]\<rparr>\<rparr>"

definition hsn_zero :: hsn where
  "hsn_zero =
     \<lparr>hsn_training = True, hsn_layers = [],
      hsn_linear = \<lparr>weight = \<lparr>ncols = 34, rows = [replicate 34 (Val 0), replicate 34 (Val 0)]\<rparr>,
                    bias = [Val 0, Val 0]\<rparr>\<rparr>"

definition hsn_example_output :: tensor where
  "hsn_example_output = \<lparr>ncols = 2, rows = replicate 34 [Val (sigmoid 1), Val (sigmoid (- 1))]\<rparr>"

definition hsn_zero_output :: tensor where
  "hsn_zero_output = \<lparr>ncols = 2, rows = replicate 34 [Val 0.5, Val 0.5]\<rparr>"

text \<open>
  Three samples for the cell-complex model above, with the node features 1, 2 and 3, one
  edge with the feature 0 and the labels 1, 0, 1; a loss that returns the first entry of
  the prediction; and a TemplateNN model with one layer that passes the edge features on.
\<close>

definition first_logit_loss :: "tval list \<Rightarrow> int \<Rightarrow> error + real" where
  "first_logit_loss y_hat y = (case y_hat of Val a # _ \<Rightarrow> Inr a | _ \<Rightarrow> Inl RuntimeError)"

definition example_samples :: "((tensor \<times> tensor \<times> tensor \<times> tensor) \<times> int) list" where
  "example_samples =
     ccxn_samples
       [\<lparr>ncols = 1, rows = [[Val 1]]\<rparr>, \<lparr>ncols = 1, rows = [[Val 2]]\<rparr>, \<lparr>ncols = 1, rows = [[Val 3]]\<rparr>]
       [\<lparr>ncols = 1, rows = [[Val 0]]\<rparr>, \<lparr>ncols = 1, rows = [[Val 0]]\<rparr>, \<lparr>ncols = 1, rows = [[Val 0]]\<rparr>]
       [no_matrix, no_matrix, no_matrix] [no_matrix, no_matrix, no_matrix] [1, 0, 1]"

definition template_example :: template_nn where
  "template_example =
     \<lparr>template_training = True,
      template_layers = [\<lparr>layer_training = True, layer_fun = (\<lambda>b (x_1, incidence_1). Inr x_1)\<rparr>],
      template_linear = \<lparr>weight = \<lparr>ncols = 1, rows = [[Val 1]]\<rparr>, bias = [Val 0]\<rparr>\<rparr>"

section \<open>Auxiliary predicates\<close>

text \<open>
  A tensor computed in exact real arithmetic holds no \<open>NaN\<close> (\<open>real_valued\<close>). The
  entries of a sigmoid output lie strictly between 0 and 1 (\<open>open01\<close>); \<open>exact_rows\<close>
  says so of a tensor with two columns.
\<close>

definition real_valued :: "tensor \<Rightarrow> bool" where
  "real_valued t = list_all (list_all (\<lambda>v. \<not> isnan v)) (rows t)"

definition open01 :: "tval \<Rightarrow> bool" where
  "open01 v = (case v of NaN \<Rightarrow> False | Val a \<Rightarrow> 0 < a \<and> a < 1)"

definition exact_rows :: "tensor \<Rightarrow> bool" where
  "exact_rows y = list_all (\<lambda>r. length r = 2 \<and> list_all open01 r) (rows y)"

text \<open>
  The hit of one sample in the evaluation pass: the call of the model followed by the
  check of the notebook.
\<close>

definition sample_hit :: "('m, 'x, 'y, 'p) notebook \<Rightarrow> 'm \<Rightarrow> 'x \<times> 'y \<Rightarrow> error + nat" where
  "sample_hit nb m s = bind_err (model_call nb m (fst s)) (\<lambda>y_hat. test_hit nb y_hat (snd s))"

text \<open>
  The same for the training pass, in which the model changes from sample to sample:
  \<open>models_before\<close> lists the model as it is when each sample is processed.
\<close>

definition train_sample_hit ::
  "('m, 'x, 'y, 'p) notebook \<Rightarrow> 'm \<Rightarrow> 'x \<times> 'y \<Rightarrow> error + nat" where
  "train_sample_hit nb m s = bind_err (model_call nb m (fst s)) (\<lambda>y_hat. train_hit nb y_hat (snd s))"

fun models_before :: "('m, 'x, 'y, 'p) notebook \<Rightarrow> 'm \<Rightarrow> ('x \<times> 'y) list \<Rightarrow> 'm list" where
  "models_before nb m [] = []"
| "models_before nb m ((x, y) # rest) = m # models_before nb (backward_step nb m x y) rest"

section \<open>Properties\<close>

subsection \<open>The zero-substitution rule\<close>

text \<open>
  C10. Replacing every \<open>NaN\<close> entry of a vector by zero is idempotent: done twice, it gives
  the same vector as done once.
\<close>

theorem nan_to_zero_idempotent: "nan_to_zero (nan_to_zero v) = nan_to_zero v"
  by (induction v) (simp_all add: nan_to_zero_def)

subsection \<open>A run of zero epochs\<close>

text \<open>
  C9. With \<open>num_epochs = 0\<close> the loop over \<open>range(1, num_epochs + 1)\<close> has no iteration: the
  run ends in the state it started in, so nothing is printed (no epoch line, no test
  line) and the model and its optimiser are as they were.
\<close>

theorem run_zero_epochs:
  "run nb 0 test_interval samples_train samples_test s = Inr s"
  by (simp add: run_def)

subsection \<open>Pooling over an empty rank\<close>

lemma bind_err_simps [simp]:
  "bind_err (Inl e) f = Inl e" "bind_err (Inr v) f = f v"
  by (simp_all add: bind_err_def)

lemma nanmean_dim0_empty: "rows t = [] \<Longrightarrow> nanmean_dim0 t = replicate (ncols t) NaN"
  by (simp add: nanmean_dim0_def column_def nanmean_list_def map_replicate_const)

lemma cells_mean_empty: "rows t = [] \<Longrightarrow> cells_mean t = replicate (ncols t) (Val 0)"
  by (simp add: cells_mean_def nanmean_dim0_empty nan_to_zero_def)

lemma length_cells_mean: "length (cells_mean t) = ncols t"
  by (simp add: cells_mean_def nan_to_zero_def nanmean_dim0_def)

lemma nan_to_zero_no_nan: "list_all (\<lambda>v. \<not> isnan v) (nan_to_zero v)"
  by (induction v) (simp_all add: nan_to_zero_def)

lemma cells_mean_no_nan: "list_all (\<lambda>v. \<not> isnan v) (cells_mean t)"
  by (simp add: cells_mean_def nan_to_zero_no_nan)

lemma tadd_zero_left: "\<not> isnan v \<Longrightarrow> tadd (Val 0) v = v"
  by (cases v) simp_all

lemma tadd_zero_right: "\<not> isnan v \<Longrightarrow> tadd v (Val 0) = v"
  by (cases v) simp_all

lemma tadd_no_nan: "\<not> isnan a \<Longrightarrow> \<not> isnan b \<Longrightarrow> \<not> isnan (tadd a b)"
  by (cases a; cases b) simp_all

lemma map2_tadd_zeros_left:
  "list_all (\<lambda>v. \<not> isnan v) v \<Longrightarrow> map2 tadd (replicate (length v) (Val 0)) v = v"
  by (induction v) (simp_all add: tadd_zero_left)

lemma map2_tadd_zeros_right:
  "list_all (\<lambda>v. \<not> isnan v) v \<Longrightarrow> map2 tadd v (replicate (length v) (Val 0)) = v"
  by (induction v) (simp_all add: tadd_zero_right)

lemma map2_tadd_no_nan:
  "list_all (\<lambda>v. \<not> isnan v) a \<Longrightarrow> list_all (\<lambda>v. \<not> isnan v) b
    \<Longrightarrow> list_all (\<lambda>v. \<not> isnan v) (map2 tadd a b)"
proof (induction a arbitrary: b)
  case Nil
  then show ?case by simp
next
  case (Cons x a)
  then show ?case by (cases b) (simp_all add: tadd_no_nan)
qed

lemma linear_apply_shape:
  "linear_apply l x = Inr y \<Longrightarrow> ncols y = out_features l \<and> rows y = map (linear_row l) (rows x)"
  by (auto simp: linear_apply_def split: if_splits)

lemma ccxn_pool_sum:
  assumes "ncols y_0 = c" "ncols y_1 = c" "ncols y_2 = c"
  shows "ccxn_pool y_0 y_1 y_2 =
     Inr (map2 tadd (map2 tadd (cells_mean y_2) (cells_mean y_1)) (cells_mean y_0))"
  using assms by (simp add: ccxn_pool_def vec_add_def length_cells_mean)

text \<open>
  C4. Let the layers of the model return the features \<open>h_0\<close>, \<open>h_1\<close>, \<open>h_2\<close> of the three
  ranks, and let the three heads (all with \<open>num_classes\<close> outputs) accept them. Then the
  forward pass returns, without raising, the sum of the three per-rank means. If a rank
  has no cell (its feature tensor has no rows), the mean over its cells is \<open>NaN\<close> in every
  class, the substitution turns it into the zero vector, and the forward pass returns
  the sum of the means of the other two ranks.
\<close>

theorem ccxn_forward_empty_rank:
  assumes layers:
      "ccxn_layers_loop (ccxn_layers m) x_0 x_1 None n00 n12 = Inr (h_0, h_1, Some h_2)"
    and l0: "linear_apply (lin_0 m) h_0 = Inr y_0"
    and l1: "linear_apply (lin_1 m) h_1 = Inr y_1"
    and l2: "linear_apply (lin_2 m) h_2 = Inr y_2"
    and c0: "out_features (lin_0 m) = num_classes"
    and c1: "out_features (lin_1 m) = num_classes"
    and c2: "out_features (lin_2 m) = num_classes"
  shows "ccxn_forward m x_0 x_1 n00 n12 =
           Inr (map2 tadd (map2 tadd (cells_mean y_2) (cells_mean y_1)) (cells_mean y_0))
       \<and> (rows h_2 = [] \<longrightarrow>
            nanmean_dim0 y_2 = replicate num_classes NaN
          \<and> cells_mean y_2 = replicate num_classes (Val 0)
          \<and> ccxn_forward m x_0 x_1 n00 n12 = Inr (map2 tadd (cells_mean y_1) (cells_mean y_0)))
       \<and> (rows h_1 = [] \<longrightarrow>
            nanmean_dim0 y_1 = replicate num_classes NaN
          \<and> cells_mean y_1 = replicate num_classes (Val 0)
          \<and> ccxn_forward m x_0 x_1 n00 n12 = Inr (map2 tadd (cells_mean y_2) (cells_mean y_0)))
       \<and> (rows h_0 = [] \<longrightarrow>
            nanmean_dim0 y_0 = replicate num_classes NaN
          \<and> cells_mean y_0 = replicate num_classes (Val 0)
          \<and> ccxn_forward m x_0 x_1 n00 n12 = Inr (map2 tadd (cells_mean y_2) (cells_mean y_1)))"
proof -
  have s0: "ncols y_0 = num_classes" "rows y_0 = map (linear_row (lin_0 m)) (rows h_0)"
    using linear_apply_shape [OF l0] c0 by simp_all
  have s1: "ncols y_1 = num_classes" "rows y_1 = map (linear_row (lin_1 m)) (rows h_1)"
    using linear_apply_shape [OF l1] c1 by simp_all
  have s2: "ncols y_2 = num_classes" "rows y_2 = map (linear_row (lin_2 m)) (rows h_2)"
    using linear_apply_shape [OF l2] c2 by simp_all
  have fwd: "ccxn_forward m x_0 x_1 n00 n12 =
      Inr (map2 tadd (map2 tadd (cells_mean y_2) (cells_mean y_1)) (cells_mean y_0))"
    by (simp add: ccxn_forward_def layers l0 l1 l2 ccxn_pool_sum [OF s0(1) s1(1) s2(1)])
  have len: "length (cells_mean y_0) = num_classes" "length (cells_mean y_1) = num_classes"
    "length (cells_mean y_2) = num_classes"
    by (simp_all add: length_cells_mean s0 s1 s2)
  have e2: "map2 tadd (map2 tadd (cells_mean y_2) (cells_mean y_1)) (cells_mean y_0)
      = map2 tadd (cells_mean y_1) (cells_mean y_0)" if "rows h_2 = []"
  proof -
    have "cells_mean y_2 = replicate (length (cells_mean y_1)) (Val 0)"
      using that by (simp add: cells_mean_empty s2 len)
    then show ?thesis by (simp add: map2_tadd_zeros_left cells_mean_no_nan)
  qed
  have e1: "map2 tadd (map2 tadd (cells_mean y_2) (cells_mean y_1)) (cells_mean y_0)
      = map2 tadd (cells_mean y_2) (cells_mean y_0)" if "rows h_1 = []"
  proof -
    have "cells_mean y_1 = replicate (length (cells_mean y_2)) (Val 0)"
      using that by (simp add: cells_mean_empty s1 len)
    then show ?thesis by (simp add: map2_tadd_zeros_right cells_mean_no_nan)
  qed
  have e0: "map2 tadd (map2 tadd (cells_mean y_2) (cells_mean y_1)) (cells_mean y_0)
      = map2 tadd (cells_mean y_2) (cells_mean y_1)" if "rows h_0 = []"
  proof -
    have "length (map2 tadd (cells_mean y_2) (cells_mean y_1)) = num_classes"
      by (simp add: len)
    then have "cells_mean y_0 =
        replicate (length (map2 tadd (cells_mean y_2) (cells_mean y_1))) (Val 0)"
      using that by (simp add: cells_mean_empty s0)
    then show ?thesis
      by (simp add: map2_tadd_zeros_right map2_tadd_no_nan cells_mean_no_nan
          del: length_map length_zip)
  qed
  show ?thesis
    using fwd e0 e1 e2
    by (simp add: nanmean_dim0_empty cells_mean_empty s0 s1 s2)
qed

text \<open>
  The theorem at the complex without faces: the node features give the means
  \<open>[2, 5]\<close>, the edge features \<open>[4, 0]\<close>, the faces contribute \<open>[0, 0]\<close>.
\<close>

theorem ccxn_forward_empty_rank_witness:
  "ccxn_forward ccxn_example nodes_example edges_example no_matrix no_matrix = Inr [Val 6, Val 5]
   \<and> cells_mean \<lparr>ncols = 2, rows = []\<rparr> = [Val 0, Val 0]"
  using ccxn_forward_empty_rank [of ccxn_example nodes_example edges_example no_matrix no_matrix
      nodes_example edges_example "\<lparr>ncols = 1, rows = []\<rparr>"
      "\<lparr>ncols = 2, rows = [[Val 1, Val 3], [Val 3, Val 7]]\<rparr>"
      "\<lparr>ncols = 2, rows = [[Val 4, Val 0]]\<rparr>"
      "\<lparr>ncols = 2, rows = []\<rparr>" 2]
  by (simp add: ccxn_example_def nodes_example_def edges_example_def no_matrix_def
      apply_layer_def linear_apply_def in_features_def out_features_def linear_row_def dot_def
      cells_mean_def nanmean_dim0_def nan_to_zero_def column_def nanmean_list_def
      upt_rec numeral_2_eq_2)

subsection \<open>The accuracies of the simplicial notebook\<close>

lemma sigmoid_pos: "0 < sigmoid x"
  by (simp add: sigmoid_def add_pos_pos)

lemma sigmoid_lt_1: "sigmoid x < 1"
  by (simp add: sigmoid_def add_pos_pos)

lemma sigmoid_gt_half: "(sigmoid x > 1/2) = (x > 0)"
proof -
  have "(sigmoid x > 1/2) = (1 + exp (- x) < 2)"
    by (simp add: sigmoid_def field_simps add_pos_pos)
  also have "\<dots> = (exp (- x) < exp 0)" by simp
  also have "\<dots> = (x > 0)" by (simp only: exp_less_cancel_iff) simp
  finally show ?thesis .
qed

lemma sigmoid_0: "sigmoid 0 = 1/2"
  by (simp add: sigmoid_def)

lemma tsigmoid_open01: "\<not> isnan (tsigmoid v) \<Longrightarrow> open01 (tsigmoid v)"
  by (cases v) (simp_all add: open01_def sigmoid_pos sigmoid_lt_1)

lemma open01_not_decided: "open01 v \<Longrightarrow> \<not> teq (where_gt c v) v"
  by (cases v) (auto simp: open01_def where_gt_def)

lemma open01_second_sigmoid: "open01 v \<Longrightarrow> c \<le> 1/2 \<Longrightarrow> ge_float c (tsigmoid v) = Val 1"
proof (cases v)
  case NaN
  assume "open01 v"
  with NaN show ?thesis by (simp add: open01_def)
next
  case (Val a)
  assume "open01 v" and c: "c \<le> 1/2"
  with Val have "0 < a" by (simp add: open01_def)
  then have "1/2 < sigmoid a" by (simp only: sigmoid_gt_half)
  with Val c show ?thesis by (simp add: ge_float_def)
qed

lemma expand_same [simp]: "length xs = n \<Longrightarrow> expand n xs = xs"
  by (simp add: expand_def)

lemma bdim_same [simp]: "bdim n n = Some n"
  by (simp add: bdim_def)

lemma tensor_eq_same_shape:
  assumes "nrows a = nrows b" "ncols a = ncols b" "rectangular a" "rectangular b"
  shows "tensor_eq a b = Inr (map2 (map2 teq) (rows a) (rows b))"
proof -
  have "map2 (\<lambda>ra rb. map2 teq (expand (ncols b) ra) (expand (ncols b) rb)) (rows a) (rows b)
      = map2 (map2 teq) (rows a) (rows b)"
  proof (rule map_cong [OF refl])
    fix p assume p: "p \<in> set (zip (rows a) (rows b))"
    obtain ra rb where eq: "p = (ra, rb)" by (cases p)
    from p eq have "ra \<in> set (rows a)" "rb \<in> set (rows b)"
      by (auto dest: set_zip_leftD set_zip_rightD)
    then have "length ra = ncols b" "length rb = ncols b"
      using assms by (auto simp: rectangular_def list_all_iff)
    then show "(case p of (ra, rb) \<Rightarrow> map2 teq (expand (ncols b) ra) (expand (ncols b) rb))
        = (case p of (ra, rb) \<Rightarrow> map2 teq ra rb)"
      by (simp add: eq)
  qed
  with assms show ?thesis
    by (simp add: tensor_eq_def nrows_def)
qed

lemma zip_map_same: "map2 f (map g xs) xs = map (\<lambda>x. f (g x) x) xs"
  by (induction xs) simp_all

lemma mean_bool_all_false:
  "bs \<noteq> [] \<Longrightarrow> list_all (\<lambda>b. \<not> b) bs \<Longrightarrow> mean_bool bs = Val 0"
proof -
  assume ne: "bs \<noteq> []" and all: "list_all (\<lambda>b. \<not> b) bs"
  from all have "filter id bs = []" by (induction bs) simp_all
  with ne show ?thesis by (simp add: mean_bool_def)
qed

lemma row_not_all_decided:
  assumes "length r = 2" "list_all open01 r"
  shows "\<not> list_all id (map (\<lambda>v. teq (where_gt c v) v) r)"
proof (cases r)
  case Nil
  with assms show ?thesis by simp
next
  case (Cons v vs)
  with assms have "open01 v" by simp
  then have "\<not> teq (where_gt c v) v" by (rule open01_not_decided)
  with Cons show ?thesis by simp
qed

lemma hsn_accuracy_zero:
  assumes "ncols y = 2" "exact_rows y" "rows y \<noteq> []"
  shows "hsn_accuracy y = Inr (Val 0)"
proof -
  have rect: "rectangular y" "rectangular (hsn_y_pred y)"
    using assms by (auto simp: rectangular_def exact_rows_def hsn_y_pred_def list_all_iff)
  have "tensor_eq (hsn_y_pred y) y = Inr (map2 (map2 teq) (rows (hsn_y_pred y)) (rows y))"
    by (rule tensor_eq_same_shape) (simp_all add: rect, simp_all add: hsn_y_pred_def nrows_def)
  also have "map2 (map2 teq) (rows (hsn_y_pred y)) (rows y)
      = map (\<lambda>r. map (\<lambda>v. teq (where_gt 0.5 v) v) r) (rows y)"
    by (simp add: hsn_y_pred_def zip_map_same)
  finally have eq: "tensor_eq (hsn_y_pred y) y
      = Inr (map (\<lambda>r. map (\<lambda>v. teq (where_gt 0.5 v) v) r) (rows y))" .
  have "\<not> list_all id (map (\<lambda>v. teq (where_gt 0.5 v) v) r)" if "r \<in> set (rows y)" for r
    using that assms(2) by (intro row_not_all_decided) (auto simp: exact_rows_def list_all_iff)
  then have "list_all (\<lambda>b. \<not> b)
      (all_dim1 (map (\<lambda>r. map (\<lambda>v. teq (where_gt 0.5 v) v) r) (rows y)))"
    by (simp add: all_dim1_def list_all_iff)
  then show ?thesis
    using assms(3) by (simp add: hsn_accuracy_def eq mean_bool_all_false all_dim1_def)
qed

lemma y_test_rows: "y_test = \<lparr>ncols = 2, rows = replicate 4 [Val 1, Val 0]\<rparr>"
  by (simp add: y_test_def y_true_def y_array_def first_rows_def numeral_eq_Suc)

lemma exact_pred_test:
  "exact_rows y \<Longrightarrow> rows (hsn_y_pred_test y) = replicate (length (rows y)) [Val 1, Val 1]"
proof -
  assume e: "exact_rows y"
  have "map (\<lambda>v. ge_float 0.5 (tsigmoid v)) r = [Val 1, Val 1]" if "r \<in> set (rows y)" for r
  proof -
    from that e have len: "length r = 2" and o: "list_all open01 r"
      by (auto simp: exact_rows_def list_all_iff)
    from len obtain a b where "r = [a, b]"
      by (cases r; cases "tl r") auto
    with o show ?thesis by (simp add: open01_second_sigmoid)
  qed
  then have "map (map (\<lambda>v. ge_float 0.5 (tsigmoid v))) (rows y)
      = map (\<lambda>r. [Val 1, Val 1]) (rows y)"
    by (intro map_cong) simp_all
  then show ?thesis by (simp add: hsn_y_pred_test_def map_replicate_const)
qed

lemma hsn_test_accuracy_zero:
  assumes "ncols y = 2" "exact_rows y" "4 \<le> length (rows y)"
  shows "hsn_test_accuracy y y_test = Inr (Val 0)"
proof -
  have "rows (first_rows 4 (hsn_y_pred_test y)) = replicate 4 [Val 1, Val 1]"
    using assms by (simp add: first_rows_def exact_pred_test min_def)
  moreover have "ncols (first_rows 4 (hsn_y_pred_test y)) = 2"
    using assms by (simp add: first_rows_def hsn_y_pred_test_def)
  ultimately have "first_rows 4 (hsn_y_pred_test y) = \<lparr>ncols = 2, rows = replicate 4 [Val 1, Val 1]\<rparr>"
    by (cases "first_rows 4 (hsn_y_pred_test y)") simp
  then show ?thesis
    by (simp add: hsn_test_accuracy_def y_test_rows nrows_def tensor_eq_def expand_def
        all_dim1_def mean_bool_def numeral_eq_Suc)
qed


lemma bind_err_Inr_iff: "bind_err r f = Inr v \<longleftrightarrow> (\<exists>u. r = Inr u \<and> f u = Inr v)"
  by (cases r) simp_all

lemma length_linear_row: "length (linear_row l r) = out_features l"
  by (simp add: linear_row_def)

lemma hsn_forward_shape:
  assumes "hsn_forward m x inc adj = Inr y"
  shows "\<exists>h. hsn_layers_loop (hsn_layers m) x inc adj = Inr h
      \<and> ncols y = out_features (hsn_linear m)
      \<and> rows y = map (\<lambda>r. map tsigmoid (linear_row (hsn_linear m) r)) (rows h)"
  using assms
  by (auto simp: hsn_forward_def bind_err_Inr_iff linear_apply_def tensor_sigmoid_def
      split: if_splits)

lemma hsn_forward_exact:
  assumes fwd: "hsn_forward m x inc adj = Inr y"
    and out: "out_features (hsn_linear m) = 2"
    and rv: "real_valued y"
  shows "ncols y = 2 \<and> exact_rows y"
proof -
  from hsn_forward_shape [OF fwd] obtain h where
    l: "hsn_layers_loop (hsn_layers m) x inc adj = Inr h" and
    c: "ncols y = out_features (hsn_linear m)" and
    r: "rows y = map (\<lambda>r. map tsigmoid (linear_row (hsn_linear m) r)) (rows h)"
    by (elim exE conjE)
  have "length q = 2 \<and> list_all open01 q" if q: "q \<in> set (rows y)" for q
  proof -
    from q r obtain p where p: "q = map tsigmoid (linear_row (hsn_linear m) p)" by auto
    from q rv have "list_all (\<lambda>v. \<not> isnan v) q" by (simp add: real_valued_def list_all_iff)
    with p have "list_all open01 q"
      by (auto simp: list_all_iff intro: tsigmoid_open01)
    with p out show ?thesis by (simp add: length_linear_row)
  qed
  with c out show ?thesis by (simp add: exact_rows_def list_all_iff)
qed

text \<open>
  C5. For every parameter setting of the HSN model (any layers, any weights of the head
  \<open>Linear(channels, 2)\<close>): if the forward pass returns an output with at least four rows
  and, as exact real arithmetic gives, without \<open>NaN\<close>, then the training accuracy computed
  from it and the test accuracy computed from it are both exactly 0. The training check
  compares the thresholded prediction with the output itself, whose entries lie strictly
  between 0 and 1; the test check thresholds a second sigmoid, which is above 0.5
  everywhere, so every decided row is \<open>[1, 1]\<close> and differs from the one-hot test labels.
\<close>

theorem hsn_accuracies_are_zero:
  assumes "hsn_forward m x_nodes incidence_1 adjacency_0 = Inr y_hat"
    and "out_features (hsn_linear m) = 2"
    and "real_valued y_hat"
    and "4 \<le> nrows y_hat"
  shows "hsn_accuracy y_hat = Inr (Val 0) \<and> hsn_test_accuracy y_hat y_test = Inr (Val 0)"
proof -
  from hsn_forward_exact [OF assms(1-3)] have e: "ncols y_hat = 2" "exact_rows y_hat" by simp_all
  from assms(4) have n: "rows y_hat \<noteq> []" "4 \<le> length (rows y_hat)" by (auto simp: nrows_def)
  show ?thesis
    using hsn_accuracy_zero [OF e n(1)] hsn_test_accuracy_zero [OF e n(2)] by simp
qed

lemma dot_zeros: "list_all (\<lambda>v. \<not> isnan v) r \<Longrightarrow> dot r (replicate n (Val 0)) = Val 0"
proof (induction r arbitrary: n)
  case Nil
  then show ?case by (simp add: dot_def)
next
  case (Cons v r)
  show ?case
  proof (cases n)
    case 0
    then show ?thesis by (simp add: dot_def)
  next
    case (Suc k)
    from Cons.prems obtain a where a: "v = Val a" by (cases v) simp_all
    from Cons.prems have "dot r (replicate k (Val 0)) = Val 0" by (intro Cons.IH) simp
    with Suc a show ?thesis by (simp add: dot_def)
  qed
qed

lemma karate_x_rows: "r \<in> set (rows karate_x) \<Longrightarrow> list_all (\<lambda>v. \<not> isnan v) r"
  by (auto simp: karate_x_def list_all_iff)

lemma length_karate_x: "length (rows karate_x) = 34"
  by (simp add: karate_x_def)

lemma zero_weight_forward:
  assumes "b0 = Val u" "b1 = Val w"
  shows "hsn_forward
     \<lparr>hsn_training = True, hsn_layers = [],
      hsn_linear = \<lparr>weight = \<lparr>ncols = 34, rows = [replicate 34 (Val 0), replicate 34 (Val 0)]\<rparr>,
                    bias = [b0, b1]\<rparr>\<rparr> karate_x no_matrix no_matrix
   = Inr \<lparr>ncols = 2, rows = replicate 34 [Val (sigmoid u), Val (sigmoid w)]\<rparr>"
proof -
  let ?l = "\<lparr>weight = \<lparr>ncols = 34, rows = [replicate 34 (Val 0), replicate 34 (Val 0)]\<rparr>,
             bias = [b0, b1]\<rparr>"
  have row: "map tsigmoid (linear_row ?l r) = [Val (sigmoid u), Val (sigmoid w)]"
    if "r \<in> set (rows karate_x)" for r
    using karate_x_rows [OF that] assms
    by (simp add: linear_row_def out_features_def dot_zeros upt_rec numeral_2_eq_2)
  have "map (\<lambda>r. map tsigmoid (linear_row ?l r)) (rows karate_x)
      = map (\<lambda>r. [Val (sigmoid u), Val (sigmoid w)]) (rows karate_x)"
    by (rule map_cong [OF refl]) (rule row)
  then have "map (map tsigmoid) (map (linear_row ?l) (rows karate_x))
      = replicate 34 [Val (sigmoid u), Val (sigmoid w)]"
    by (simp add: map_replicate_const length_karate_x comp_def)
  moreover have "ncols karate_x = 34" by (simp add: karate_x_def)
  ultimately show ?thesis
    by (simp add: hsn_forward_def linear_apply_def in_features_def out_features_def
        tensor_sigmoid_def)
qed

lemma hsn_forward_example:
  "hsn_forward hsn_example karate_x no_matrix no_matrix = Inr hsn_example_output"
  unfolding hsn_example_def hsn_example_output_def by (rule zero_weight_forward) simp_all

lemma hsn_forward_zero:
  "hsn_forward hsn_zero karate_x no_matrix no_matrix = Inr hsn_zero_output"
  unfolding hsn_zero_def hsn_zero_output_def
  using zero_weight_forward [of "Val 0" 0 "Val 0" 0] by (simp add: sigmoid_0)

lemma sigmoid_1_gt: "1/2 < sigmoid 1"
  using sigmoid_gt_half [of 1] by simp

lemma sigmoid_m1_le: "\<not> 1/2 < sigmoid (- 1)"
  using sigmoid_gt_half [of "- 1"] by simp

lemma y_pred_example: "rows (hsn_y_pred hsn_example_output) = replicate 34 [Val 1, Val 0]"
  using sigmoid_1_gt sigmoid_m1_le
  by (simp add: hsn_y_pred_def hsn_example_output_def where_gt_def)

lemma example_output_exact: "ncols hsn_example_output = 2 \<and> exact_rows hsn_example_output"
  by (simp add: hsn_example_output_def exact_rows_def open01_def sigmoid_pos sigmoid_lt_1
      list_all_iff)

lemma y_pred_test_example:
  "rows (hsn_y_pred_test hsn_example_output) = replicate 34 [Val 1, Val 1]"
  using exact_pred_test [of hsn_example_output] example_output_exact
  by (simp add: hsn_example_output_def)

text \<open>
  C1, in the simplicial notebook. With a zero weight and the bias \<open>[1, -1]\<close> the model
  returns \<open>[sigmoid 1, sigmoid (-1)]\<close> for every node, and the decided prediction is
  \<open>[1, 0]\<close> for every node. It equals the label of 17 of the 34 nodes, and the reported
  training accuracy is 0: the check compares the decided prediction with \<open>y_hat\<close>, not
  with the label.
\<close>

theorem hsn_train_accuracy_ignores_labels:
  "hsn_forward hsn_example karate_x no_matrix no_matrix = Inr hsn_example_output
   \<and> rows (hsn_y_pred hsn_example_output) = replicate 34 [Val 1, Val 0]
   \<and> length (filter (\<lambda>(p, l). p = l) (zip (rows (hsn_y_pred hsn_example_output)) (rows y_true))) = 17
   \<and> hsn_accuracy hsn_example_output = Inr (Val 0)"
proof -
  have "length (filter (\<lambda>(p, l). p = l) (zip (replicate 34 [Val 1, Val 0]) (rows y_true))) = 17"
    by (simp add: y_true_def y_array_def numeral_eq_Suc)
  moreover have "hsn_accuracy hsn_example_output = Inr (Val 0)"
    using example_output_exact by (intro hsn_accuracy_zero) (simp_all add: hsn_example_output_def)
  ultimately show ?thesis
    by (simp add: hsn_forward_example y_pred_example)
qed

text \<open>
  C3, in the simplicial notebook. With a zero weight and a zero bias every prediction is
  exactly 0.5. The training pass decides the negative class for it (\<open>y_hat > 0.5\<close>), the
  evaluation pass the positive class: it compares with \<open>.ge(0.5)\<close>, which is true at 0.5,
  and it compares the sigmoid of the prediction.
\<close>

theorem hsn_test_threshold_not_strict:
  "hsn_forward hsn_zero karate_x no_matrix no_matrix = Inr hsn_zero_output
   \<and> rows hsn_zero_output = replicate 34 [Val 0.5, Val 0.5]
   \<and> rows (hsn_y_pred hsn_zero_output) = replicate 34 [Val 0, Val 0]
   \<and> rows (hsn_y_pred_test hsn_zero_output) = replicate 34 [Val 1, Val 1]
   \<and> where_gt 0.5 (Val 0.5) = Val 0
   \<and> ge_float 0.5 (Val 0.5) = Val 1"
proof -
  have "open01 (Val (1/2))" by (simp add: open01_def)
  then have "ge_float (1/2) (tsigmoid (Val (1/2))) = Val 1"
    by (rule open01_second_sigmoid) simp
  then show ?thesis
    by (simp add: hsn_forward_zero hsn_zero_output_def hsn_y_pred_def hsn_y_pred_test_def
        where_gt_def ge_float_def)
qed

text \<open>
  The theorem on the two accuracies at the model with zero weight and zero bias, whose
  output is 0.5 everywhere.
\<close>

theorem hsn_accuracies_are_zero_witness:
  "hsn_forward hsn_zero karate_x no_matrix no_matrix = Inr hsn_zero_output
   \<and> hsn_accuracy hsn_zero_output = Inr (Val 0)
   \<and> hsn_test_accuracy hsn_zero_output y_test = Inr (Val 0)"
  using hsn_accuracies_are_zero [of hsn_zero karate_x no_matrix no_matrix hsn_zero_output]
  by (simp add: hsn_forward_zero)
    (simp add: hsn_zero_def hsn_zero_output_def out_features_def real_valued_def nrows_def
      list_all_iff)

subsection \<open>The epochs of the cell-complex and hypergraph notebooks\<close>

lemma train_pass_counts:
  "train_pass nb m c tr = Inr (m', c') \<Longrightarrow>
     num_samples c' = num_samples c + length tr
     \<and> length (epoch_loss c') = length (epoch_loss c) + length tr"
proof (induction tr arbitrary: m c)
  case Nil
  then show ?case by simp
next
  case (Cons a tr)
  obtain x y where a: "a = (x, y)" by (cases a)
  from Cons.prems a obtain m1 c1 where
    rest: "train_pass nb m1 c1 tr = Inr (m', c')" and
    n: "num_samples c1 = num_samples c + 1" and
    l: "length (epoch_loss c1) = length (epoch_loss c) + 1"
    by (auto simp: bind_err_Inr_iff)
  from Cons.IH [OF rest] n l show ?case by simp
qed

lemma test_pass_counts:
  "test_pass nb m (n, k) te = Inr (n', k') \<Longrightarrow>
     \<exists>hs. map (sample_hit nb m) te = map Inr hs \<and> n' = n + length te \<and> k' = k + sum_list hs"
proof (induction te arbitrary: n k)
  case Nil
  then show ?case by simp
next
  case (Cons a te)
  obtain x y where a: "a = (x, y)" by (cases a)
  from Cons.prems a obtain y_hat h where
    f: "model_call nb m x = Inr y_hat" and h: "test_hit nb y_hat y = Inr h" and
    rest: "test_pass nb m (n + 1, k + h) te = Inr (n', k')"
    by (auto simp: bind_err_Inr_iff)
  from Cons.IH [OF rest] obtain hs where
    hs: "map (sample_hit nb m) te = map Inr hs" "n' = n + 1 + length te" "k' = k + h + sum_list hs"
    by blast
  have "sample_hit nb m a = Inr h" by (simp add: sample_hit_def a f h)
  with hs have "map (sample_hit nb m) (a # te) = map Inr (h # hs)
      \<and> n' = n + length (a # te) \<and> k' = k + sum_list (h # hs)"
    by simp
  then show ?case by blast
qed

text \<open>
  The counter of the training pass: \<open>correct\<close> grows by the hit of every sample, computed
  by the check of the notebook from the prediction of the model as it is at that sample.
\<close>

lemma train_pass_correct:
  "train_pass nb m c tr = Inr (m', c') \<Longrightarrow>
     \<exists>hs. map2 (train_sample_hit nb) (models_before nb m tr) tr = map Inr hs
        \<and> correct c' = correct c + sum_list hs"
proof (induction tr arbitrary: m c)
  case Nil
  then show ?case by simp
next
  case (Cons a tr)
  obtain x y where a: "a = (x, y)" by (cases a)
  from Cons.prems a obtain y_hat loss h where
    f: "model_call nb m x = Inr y_hat" and h: "train_hit nb y_hat y = Inr h" and
    rest: "train_pass nb (backward_step nb m x y)
        \<lparr>epoch_loss = epoch_loss c @ [loss], num_samples = num_samples c + 1,
         correct = correct c + h\<rparr> tr = Inr (m', c')"
    by (auto simp: bind_err_Inr_iff)
  from Cons.IH [OF rest] obtain hs where
    hs: "map2 (train_sample_hit nb) (models_before nb (backward_step nb m x y) tr) tr = map Inr hs"
      "correct c' = correct c + h + sum_list hs"
    by auto
  have "train_sample_hit nb m a = Inr h" by (simp add: train_sample_hit_def a f h)
  with hs a have "map2 (train_sample_hit nb) (models_before nb m (a # tr)) (a # tr) = map Inr (h # hs)
      \<and> correct c' = correct c + sum_list (h # hs)"
    by simp
  then show ?case by blast
qed

lemma py_div_Inr_iff: "py_div a b = Inr q \<longleftrightarrow> b \<noteq> 0 \<and> q = real a / real b"
  by (auto simp: py_div_def)

lemma evaluation_result:
  assumes "evaluation nb te s = Inr s'"
  shows "\<exists>hs. map (sample_hit nb (model s)) te = map Inr hs \<and> te \<noteq> []
      \<and> s' = s\<lparr>printed := printed s @ [Test_line (Val (real (sum_list hs) / real (length te)))]\<rparr>"
proof -
  from assms obtain n k where
    t: "test_pass nb (model s) (0, 0) te = Inr (n, k)" and n0: "n \<noteq> 0" and
    s': "s' = s\<lparr>printed := printed s @ [Test_line (Val (real k / real n))]\<rparr>"
    by (auto simp: evaluation_def bind_err_Inr_iff py_div_Inr_iff)
  from test_pass_counts [OF t] obtain hs where
    "map (sample_hit nb (model s)) te = map Inr hs" "n = length te" "k = sum_list hs"
    by auto
  with n0 s' show ?thesis by auto
qed

text \<open>
  An epoch that ends without raising: the evaluation pass is run exactly when
  \<open>epoch_i mod test_interval = 0\<close>; it leaves the model as the training pass left it, and
  the test accuracy it prints is the number of hits of the frozen model on the test
  samples, taken in order, over their number.
\<close>

lemma run_epoch_evaluation:
  assumes "run_epoch nb test_interval samples_train samples_test s epoch_i = Inr s'"
  shows "\<exists>m c. train_pass nb (set_train nb (model s)) counters0 samples_train = Inr (m, c)
      \<and> model s' = m \<and> test_interval \<noteq> 0
      \<and> (if epoch_i mod test_interval = 0
          then \<exists>hs. map (sample_hit nb m) samples_test = map Inr hs \<and> samples_test \<noteq> []
            \<and> printed s' = printed s @
                [Epoch_line epoch_i (np_mean (epoch_loss c))
                   (Val (real (correct c) / real (num_samples c))),
                 Test_line (Val (real (sum_list hs) / real (length samples_test)))]
          else printed s' = printed s @
                [Epoch_line epoch_i (np_mean (epoch_loss c))
                   (Val (real (correct c) / real (num_samples c)))])"
proof -
  from assms obtain m c where
    t: "train_pass nb (set_train nb (model s)) counters0 samples_train = Inr (m, c)" and
    n0: "num_samples c \<noteq> 0" and ti: "test_interval \<noteq> 0" and
    r: "(if epoch_i mod test_interval = 0
         then evaluation nb samples_test
           \<lparr>model = m, printed = printed s @
              [Epoch_line epoch_i (np_mean (epoch_loss c))
                 (Val (real (correct c) / real (num_samples c)))]\<rparr>
         else Inr \<lparr>model = m, printed = printed s @
              [Epoch_line epoch_i (np_mean (epoch_loss c))
                 (Val (real (correct c) / real (num_samples c)))]\<rparr>) = Inr s'"
    by (auto simp: run_epoch_def bind_err_Inr_iff py_div_Inr_iff Let_def split: if_splits)
  show ?thesis
  proof (cases "epoch_i mod test_interval = 0")
    case True
    with r evaluation_result [of nb samples_test _ s'] t ti show ?thesis
      by fastforce
  next
    case False
    with r t ti show ?thesis by auto
  qed
qed

text \<open>Both notebooks use one and the same check in the two passes.\<close>

lemma ccxn_same_check:
  "test_hit (ccxn_notebook loss step) = train_hit (ccxn_notebook loss step)
   \<and> train_hit (ccxn_notebook loss step) = ccxn_hit"
  by (simp add: ccxn_notebook_def)

lemma template_same_check:
  "test_hit (template_notebook loss step) = train_hit (template_notebook loss step)
   \<and> train_hit (template_notebook loss step) = template_hit"
  by (simp add: template_notebook_def)

text \<open>
  The checks themselves: a hit of the cell-complex notebook is counted exactly when the
  argmax of the prediction is the label, a hit of the hypergraph notebook exactly when
  the prediction is above the threshold for a label other than 0 and not above it for the
  label 0. A prediction of exactly 0.5 is not above the threshold.
\<close>

lemma ccxn_hit_iff:
  "ccxn_hit y_hat y = Inr h \<longleftrightarrow> (\<exists>i. argmax y_hat = Inr i \<and> h = (if int i = y then 1 else 0))"
  by (auto simp: ccxn_hit_def bind_err_Inr_iff)

lemma template_hit_iff:
  "template_hit y_hat y = Inr h \<longleftrightarrow>
     h = (if tgt y_hat threshold_probability_positive_class = (y \<noteq> 0) then 1 else 0)"
  by (auto simp: template_hit_def)

lemma template_hit_at_threshold:
  "\<not> tgt (Val 0.5) threshold_probability_positive_class
   \<and> template_hit (Val 0.5) 0 = Inr 1 \<and> template_hit (Val 0.5) 1 = Inr 0"
  by (simp add: template_hit_def threshold_probability_positive_class_def)

lemma ccxn_hit_le_1: "ccxn_hit y_hat y = Inr h \<Longrightarrow> h \<le> 1"
  by (auto simp: ccxn_hit_def bind_err_Inr_iff)

lemma template_hit_le_1: "template_hit y_hat y = Inr h \<Longrightarrow> h \<le> 1"
  by (auto simp: template_hit_def)

lemma template_hit_binary:
  "y = 0 \<or> y = 1 \<Longrightarrow>
     template_hit y_hat y = Inr (if (if tgt y_hat 0.5 then 1 else 0) = y then 1 else 0)"
  by (auto simp: template_hit_def threshold_probability_positive_class_def)

text \<open>
  C7. An epoch that ends without raising has processed at least one training sample,
  has recorded one loss per sample, and its line reports the arithmetic mean of the
  recorded losses and \<open>correct\<close> over the number of samples processed. The mean of the
  losses \<open>[1, 2, 3]\<close> is \<open>2\<close>.
\<close>

theorem epoch_line_reports_means:
  assumes "run_epoch nb test_interval samples_train samples_test s epoch_i = Inr s'"
  shows "(\<exists>m c rest.
            train_pass nb (set_train nb (model s)) counters0 samples_train = Inr (m, c)
          \<and> samples_train \<noteq> []
          \<and> length (epoch_loss c) = length samples_train
          \<and> num_samples c = length samples_train
          \<and> printed s' = printed s @
              Epoch_line epoch_i (Val (sum_list (epoch_loss c) / real (length samples_train)))
                (Val (real (correct c) / real (length samples_train))) # rest)
       \<and> np_mean [1, 2, 3] = Val 2"
proof -
  from run_epoch_evaluation [OF assms] obtain m c where
    t: "train_pass nb (set_train nb (model s)) counters0 samples_train = Inr (m, c)" and
    p: "\<exists>rest. printed s' = printed s @
          Epoch_line epoch_i (np_mean (epoch_loss c))
            (Val (real (correct c) / real (num_samples c))) # rest"
    by (auto split: if_splits)
  from train_pass_counts [OF t] have
    n: "num_samples c = length samples_train" "length (epoch_loss c) = length samples_train"
    by (simp_all add: counters0_def)
  from assms t have "num_samples c \<noteq> 0"
    by (auto simp: run_epoch_def bind_err_Inr_iff py_div_Inr_iff)
  with n have ne: "samples_train \<noteq> []" "epoch_loss c \<noteq> []" by auto
  then have "np_mean (epoch_loss c) = Val (sum_list (epoch_loss c) / real (length samples_train))"
    by (simp add: np_mean_def n)
  with t p n ne show ?thesis by (auto simp: np_mean_def)
qed


lemma ccxn_example_forward:
  "ccxn_forward (ccxn_train True ccxn_example) \<lparr>ncols = 1, rows = [[Val a]]\<rparr>
      \<lparr>ncols = 1, rows = [[Val 0]]\<rparr> no_matrix no_matrix = Inr [Val a, Val (2 * a + 1)]"
  by (simp add: ccxn_forward_def ccxn_train_def layer_train_def ccxn_example_def no_matrix_def
      apply_layer_def linear_apply_def in_features_def out_features_def linear_row_def dot_def
      ccxn_pool_def vec_add_def
      cells_mean_def nanmean_dim0_def nan_to_zero_def column_def nanmean_list_def
      upt_rec numeral_2_eq_2)

lemma ccxn_train_idem: "ccxn_train True (ccxn_train True m) = ccxn_train True m"
  by (simp add: ccxn_train_def layer_train_def comp_def)

text \<open>
  The theorem at three samples of the cell-complex notebook whose losses are 1, 2 and 3:
  the argmax is class 1 for each, the labels are 1, 0, 1.
\<close>

theorem epoch_line_reports_means_witness:
  "run_epoch (ccxn_notebook first_logit_loss (\<lambda>m x y. m)) 2 example_samples example_samples
      \<lparr>model = (ccxn_train True ccxn_example, ()), printed = []\<rparr> 1
   = Inr \<lparr>model = (ccxn_train True ccxn_example, ()),
          printed = [Epoch_line 1 (Val 2) (Val (2 / 3))]\<rparr>"
  using epoch_line_reports_means [of "ccxn_notebook first_logit_loss (\<lambda>m x y. m)" 2
      example_samples example_samples
      "\<lparr>model = (ccxn_train True ccxn_example, ()), printed = []\<rparr>" 1
      "\<lparr>model = (ccxn_train True ccxn_example, ()),
          printed = [Epoch_line 1 (Val 2) (Val (2 / 3))]\<rparr>"]
  by (simp add: run_epoch_def ccxn_notebook_def example_samples_def ccxn_samples_def
      ccxn_train_idem ccxn_example_forward first_logit_loss_def ccxn_hit_def argmax_def
      counters0_def py_div_def np_mean_def del: One_nat_def)


subsection \<open>Training mode and evaluation mode\<close>

lemma apply_layer_train:
  "mode_independent l \<Longrightarrow> apply_layer (layer_train b l) x = apply_layer l x"
proof -
  assume "mode_independent l"
  then have "layer_fun l b x = layer_fun l True x" "layer_fun l (layer_training l) x = layer_fun l True x"
    unfolding mode_independent_def by blast+
  then show ?thesis by (simp add: apply_layer_def layer_train_def)
qed

lemma ccxn_layers_loop_train:
  "list_all mode_independent ls \<Longrightarrow>
     ccxn_layers_loop (map (layer_train b) ls) x_0 x_1 x_2 n00 n12
       = ccxn_layers_loop ls x_0 x_1 x_2 n00 n12"
  by (induction ls arbitrary: x_0 x_1 x_2) (simp_all add: apply_layer_train)

lemma template_layers_loop_train:
  "list_all mode_independent ls \<Longrightarrow>
     template_layers_loop (map (layer_train b) ls) x_1 incidence_1
       = template_layers_loop ls x_1 incidence_1"
  by (induction ls arbitrary: x_1) (simp_all add: apply_layer_train)

lemma ccxn_forward_train:
  "list_all mode_independent (ccxn_layers m) \<Longrightarrow>
     ccxn_forward (ccxn_train b m) x_0 x_1 n00 n12 = ccxn_forward m x_0 x_1 n00 n12"
  by (simp add: ccxn_forward_def ccxn_train_def ccxn_layers_loop_train cong: option.case_cong)

lemma template_forward_train:
  "list_all mode_independent (template_layers m) \<Longrightarrow>
     template_forward (template_train b m) x_1 incidence_1 = template_forward m x_1 incidence_1"
  by (simp add: template_forward_def template_train_def template_layers_loop_train)

lemma hsn_forward_train:
  "hsn_forward (hsn_train b m) x_0 incidence_1 adjacency_0 = hsn_forward m x_0 incidence_1 adjacency_0"
  by (simp add: hsn_forward_def hsn_train_def)

text \<open>
  C8. If the layers of the model ignore their training flag, the forward pass of each of
  the three models returns the same result after \<open>model.train()\<close> and after
  \<open>model.eval()\<close>, which is \<open>model.train(False)\<close>: \<open>forward\<close> itself never reads the flag.
  (The layers of HSN are not registered with the module, so the flag does not even reach
  them.)
\<close>

theorem forward_independent_of_mode:
  assumes "list_all mode_independent (ccxn_layers c)"
    and "list_all mode_independent (template_layers t)"
  shows "ccxn_forward (ccxn_train True c) x_0 x_1 n00 n12
           = ccxn_forward (ccxn_train False c) x_0 x_1 n00 n12
       \<and> template_forward (template_train True t) e_1 i_1
           = template_forward (template_train False t) e_1 i_1
       \<and> hsn_forward (hsn_train True h) v_0 b_1 a_0 = hsn_forward (hsn_train False h) v_0 b_1 a_0"
  using assms by (simp add: ccxn_forward_train template_forward_train hsn_forward_train)

lemma template_example_forward:
  "template_forward (template_train True template_example) edges_example no_matrix
     = Inr (Val (sigmoid 4))"
  by (simp add: template_forward_def template_train_def layer_train_def template_example_def
      edges_example_def apply_layer_def max_dim0_def column_def linear_vec_def in_features_def
      out_features_def linear_row_def dot_def index0_def)

text \<open>The theorem at the three example models.\<close>

theorem forward_independent_of_mode_witness:
  "ccxn_forward (ccxn_train False ccxn_example) nodes_example edges_example no_matrix no_matrix
     = Inr [Val 6, Val 5]
   \<and> template_forward (template_train False template_example) edges_example no_matrix
     = Inr (Val (sigmoid 4))
   \<and> hsn_forward (hsn_train False hsn_example) karate_x no_matrix no_matrix
     = Inr hsn_example_output"
proof -
  have c: "list_all mode_independent (ccxn_layers ccxn_example)"
    by (simp add: ccxn_example_def mode_independent_def)
  have t: "list_all mode_independent (template_layers template_example)"
    by (simp add: template_example_def mode_independent_def)
  have "ccxn_forward (ccxn_train True ccxn_example) nodes_example edges_example no_matrix no_matrix
      = Inr [Val 6, Val 5]"
    by (simp add: ccxn_forward_def ccxn_train_def layer_train_def ccxn_example_def
        nodes_example_def edges_example_def no_matrix_def
        apply_layer_def linear_apply_def in_features_def out_features_def linear_row_def dot_def
        ccxn_pool_def vec_add_def
        cells_mean_def nanmean_dim0_def nan_to_zero_def column_def nanmean_list_def
        upt_rec numeral_2_eq_2)
  moreover have "hsn_forward (hsn_train True hsn_example) karate_x no_matrix no_matrix
      = Inr hsn_example_output"
    by (simp add: hsn_forward_train hsn_forward_example)
  ultimately show ?thesis
    using forward_independent_of_mode [OF c t, of nodes_example edges_example no_matrix no_matrix
        edges_example no_matrix hsn_example karate_x no_matrix no_matrix]
    by (simp add: template_example_forward)
qed

subsection \<open>The train/test split\<close>

lemma train_test_split_Inr:
  assumes "train_test_split xs f = Inr (tr, te)"
  shows "tr @ te = xs \<and> tr = take (length tr) xs \<and> te = drop (length tr) xs
       \<and> length te = nat \<lceil>f * real (length xs)\<rceil> \<and> tr \<noteq> [] \<and> 0 < f \<and> f < 1"
proof -
  let ?n = "length xs"
  let ?k = "nat \<lceil>f * real ?n\<rceil>"
  from assms have f: "0 < f" "f < 1" and k: "?n - ?k \<noteq> 0"
    and tr: "tr = take (?n - ?k) xs" and te: "te = take ?k (drop (?n - ?k) xs)"
    by (auto simp: train_test_split_def Let_def split: if_splits)
  from k have kn: "?k \<le> ?n" by linarith
  then have "length (drop (?n - ?k) xs) = ?k" by simp
  then have te': "te = drop (?n - ?k) xs" using te by simp
  from k have ltr: "length tr = ?n - ?k" using tr by simp
  from tr te' ltr kn k f show ?thesis by auto
qed

lemma train_test_split_20:
  "length xs = 20 \<Longrightarrow> train_test_split xs 0.2 = Inr (take 16 xs, drop 16 xs)"
  by (simp add: train_test_split_def)

lemma hsn_split_rows:
  "rows y_test = take 4 (rows y_true) \<and> rows y_train = drop 4 (rows y_true)
   \<and> rows y_test @ rows y_train = rows y_true"
  by (simp add: y_test_def y_train_def first_rows_def last_rows_def y_true_def y_array_def)

text \<open>The split returns whenever the test part leaves a sample for training.\<close>

lemma train_test_split_returns:
  assumes "0 < f" "f < 1" "\<lceil>f * real (length xs)\<rceil> < int (length xs)"
  shows "\<exists>tr te. train_test_split xs f = Inr (tr, te)"
proof -
  from assms(1) have "0 \<le> f * real (length xs)" by simp
  then have "0 \<le> \<lceil>f * real (length xs)\<rceil>" by (simp add: zero_le_ceiling)
  with assms(3) have "nat \<lceil>f * real (length xs)\<rceil> < length xs" by (simp add: nat_less_iff)
  with assms(1,2) show ?thesis by (simp add: train_test_split_def Let_def)
qed

text \<open>
  The notebooks split every list on its own (features, matrices, labels). Lists of one
  length are split at the same index, so the parts stay aligned: zipping the training
  parts gives the first samples of the zipped lists, zipping the test parts the others.
\<close>

lemma split_keeps_alignment:
  assumes x: "train_test_split xs f = Inr (x_train, x_test)"
    and y: "train_test_split ys f = Inr (y_train', y_test')"
    and len: "length xs = length ys"
  shows "zip x_train y_train' = take (length x_train) (zip xs ys)
       \<and> zip x_test y_test' = drop (length x_train) (zip xs ys)"
proof -
  from train_test_split_Inr [OF x] have
    x1: "x_train = take (length x_train) xs" "x_test = drop (length x_train) xs"
    and x2: "length x_test = nat \<lceil>f * real (length xs)\<rceil>" "x_train @ x_test = xs"
    by fast+
  from train_test_split_Inr [OF y] have
    y1: "y_train' = take (length y_train') ys" "y_test' = drop (length y_train') ys"
    and y2: "length y_test' = nat \<lceil>f * real (length ys)\<rceil>" "y_train' @ y_test' = ys"
    by fast+
  from x2 have "length x_train + length x_test = length xs" by (metis length_append)
  moreover from y2 have "length y_train' + length y_test' = length ys" by (metis length_append)
  ultimately have eq: "length y_train' = length x_train" using x2(1) y2(1) len by simp
  have "zip x_train y_train' = zip (take (length x_train) xs) (take (length x_train) ys)"
    using x1(1) y1(1) eq by simp
  moreover have "zip x_test y_test' = zip (drop (length x_train) xs) (drop (length x_train) ys)"
    using x1(2) y1(2) eq by simp
  ultimately show ?thesis by (simp add: take_zip drop_zip)
qed

lemma ceiling_half: "\<lceil>1 / 2 :: real\<rceil> = 1"
  by (rule ceiling_unique) simp_all

text \<open>
  C2, as stated, fails twice. In the simplicial notebook the training rows are the last
  thirty label rows and the test rows the first four, so the training rows followed by
  the test rows are not the labels in their order, and the training rows are not a
  prefix. And \<open>train_test_split\<close> yields no split of a single sample at the fraction
  \<open>1/2\<close>: it refuses an empty training part.
\<close>

theorem split_counterexample:
  "rows y_train @ rows y_test \<noteq> rows y_true
   \<and> rows y_train \<noteq> take (length (rows y_train)) (rows y_true)
   \<and> train_test_split [0 :: nat] (1 / 2) = Inl ValueError"
  by (simp add: y_test_def y_train_def first_rows_def last_rows_def y_true_def y_array_def
      train_test_split_def ceiling_half)

text \<open>
  C2, amended. Whenever \<open>train_test_split\<close> returns, the training part is a prefix of the
  samples and the test part the remaining suffix, of \<open>\<lceil>f * n\<rceil>\<close> samples, so the training
  part followed by the test part is the sequence of samples; of 20 samples at the
  fraction 0.2 the training part is the samples at the indices 0 to 15 and the test part
  those at 16 to 19. In the simplicial notebook the test rows are the first four label
  rows and the training rows the remaining thirty: the test rows followed by the training
  rows are the labels.
\<close>

theorem split_is_prefix_and_suffix:
  "(train_test_split xs f = Inr (tr, te) \<longrightarrow>
      tr @ te = xs \<and> tr = take (length tr) xs \<and> te = drop (length tr) xs
      \<and> length te = nat \<lceil>f * real (length xs)\<rceil>)
   \<and> (length xs = 20 \<longrightarrow> train_test_split xs 0.2 = Inr (take 16 xs, drop 16 xs))
   \<and> train_test_split [0..<20] 0.2 = Inr ([0..<16], [16..<20])
   \<and> rows y_test = take 4 (rows y_true) \<and> rows y_train = drop 4 (rows y_true)
   \<and> rows y_test @ rows y_train = rows y_true"
  using train_test_split_Inr [of xs f tr te] train_test_split_20 [of xs]
    train_test_split_20 [of "[0..<20]"] hsn_split_rows
  by simp

text \<open>The theorem at the twenty indices and the fraction 0.2.\<close>

theorem split_is_prefix_and_suffix_witness:
  "train_test_split [0..<20] 0.2 = Inr ([0..<16], [16..<20]) \<and> [0..<16] @ [16..<20] = [0..<20]
   \<and> length [16..<20] = nat \<lceil>0.2 * real (length [0..<20])\<rceil>"
  using split_is_prefix_and_suffix [of "[0..<20]" "0.2" "[0..<16]" "[16..<20]"]
  by simp

subsection \<open>The decision rules\<close>

text \<open>
  \<open>argmax\<close> returns the first index of a maximal entry, and it returns for every
  non-empty tensor.
\<close>

lemma tbetter_irrefl: "\<not> tbetter a a"
  by (cases a) simp_all

lemma tbetter_trans: "tbetter a b \<Longrightarrow> tbetter b c \<Longrightarrow> tbetter a c"
  by (cases a; cases b; cases c) simp_all

lemma tbetter_not: "tbetter a b \<Longrightarrow> \<not> tbetter c b \<Longrightarrow> tbetter a c"
  by (cases a; cases b; cases c) simp_all

lemma argmax_from_first_max:
  assumes "best < length pre" "bv = pre ! best"
    and "\<forall>j<length pre. \<not> tbetter (pre ! j) bv"
    and "\<forall>j<best. tbetter bv (pre ! j)"
  shows "argmax_from best bv (length pre) vs < length (pre @ vs)
       \<and> (\<forall>j<length (pre @ vs).
             \<not> tbetter ((pre @ vs) ! j) ((pre @ vs) ! argmax_from best bv (length pre) vs))
       \<and> (\<forall>j<argmax_from best bv (length pre) vs.
             tbetter ((pre @ vs) ! argmax_from best bv (length pre) vs) ((pre @ vs) ! j))"
  using assms
proof (induction vs arbitrary: best bv pre)
  case Nil
  then show ?case by simp
next
  case (Cons v vs)
  let ?pre = "pre @ [v]"
  have app: "?pre @ vs = pre @ v # vs" by simp
  have len: "length ?pre = Suc (length pre)" by simp
  show ?case
  proof (cases "tbetter v bv")
    case True
    have 1: "length pre < length ?pre" by simp
    have 2: "v = ?pre ! length pre" by simp
    have 3: "\<forall>j<length ?pre. \<not> tbetter (?pre ! j) v"
    proof (intro allI impI)
      fix j assume "j < length ?pre"
      then consider "j < length pre" | "j = length pre" by fastforce
      then show "\<not> tbetter (?pre ! j) v"
      proof cases
        case 1
        with Cons.prems(3) have "\<not> tbetter (pre ! j) bv" by simp
        with True have "\<not> tbetter (pre ! j) v" using tbetter_trans by blast
        with 1 show ?thesis by (simp add: nth_append)
      next
        case 2
        then show ?thesis by (simp add: tbetter_irrefl)
      qed
    qed
    have 4: "\<forall>j<length pre. tbetter v (?pre ! j)"
    proof (intro allI impI)
      fix j assume j: "j < length pre"
      with Cons.prems(3) have "\<not> tbetter (pre ! j) bv" by simp
      with True have "tbetter v (pre ! j)" by (rule tbetter_not)
      with j show "tbetter v (?pre ! j)" by (simp add: nth_append)
    qed
    from Cons.IH [OF 1 2 3 4] True show ?thesis
      by simp
  next
    case False
    have 1: "best < length ?pre" using Cons.prems(1) by simp
    have 2: "bv = ?pre ! best" using Cons.prems(1,2) by (simp add: nth_append)
    have 3: "\<forall>j<length ?pre. \<not> tbetter (?pre ! j) bv"
    proof (intro allI impI)
      fix j assume "j < length ?pre"
      then consider "j < length pre" | "j = length pre" by fastforce
      then show "\<not> tbetter (?pre ! j) bv"
      proof cases
        case 1
        with Cons.prems(3) show ?thesis by (simp add: nth_append)
      next
        case 2
        with False show ?thesis by simp
      qed
    qed
    have 4: "\<forall>j<best. tbetter bv (?pre ! j)"
      using Cons.prems(1,4) by (simp add: nth_append)
    from Cons.IH [OF 1 2 3 4] False show ?thesis
      by simp
  qed
qed

lemma argmax_first_max:
  assumes "argmax v = Inr i"
  shows "i < length v \<and> (\<forall>j<length v. \<not> tbetter (v ! j) (v ! i)) \<and> (\<forall>j<i. tbetter (v ! i) (v ! j))"
proof (cases v)
  case Nil
  with assms show ?thesis by (simp add: argmax_def)
next
  case (Cons x xs)
  with assms have i: "i = argmax_from 0 x (length [x]) xs" by (simp add: argmax_def)
  have "argmax_from 0 x (length [x]) xs < length ([x] @ xs)
       \<and> (\<forall>j<length ([x] @ xs).
             \<not> tbetter (([x] @ xs) ! j) (([x] @ xs) ! argmax_from 0 x (length [x]) xs))
       \<and> (\<forall>j<argmax_from 0 x (length [x]) xs.
             tbetter (([x] @ xs) ! argmax_from 0 x (length [x]) xs) (([x] @ xs) ! j))"
    by (rule argmax_from_first_max) (simp_all add: tbetter_irrefl)
  with i Cons show ?thesis by simp
qed

lemma argmax_total: "v \<noteq> [] \<Longrightarrow> \<exists>i. argmax v = Inr i"
  by (cases v) (simp_all add: argmax_def)

subsection \<open>The epochs of the simplicial notebook\<close>

text \<open>
  The simplicial notebook runs its evaluation block exactly when
  \<open>epoch_i mod test_interval = 0\<close>, and the block leaves the model as the step left it.
\<close>

lemma hsn_epoch_evaluation:
  assumes "hsn_epoch bce step test_interval x_nodes incidence_1 adjacency_0 s epoch_i = Inr s'"
  shows "model s' = step (hsn_train True (fst (model s)), snd (model s)) \<and> test_interval \<noteq> 0
      \<and> (\<exists>y_hat loss accuracy.
            hsn_forward (hsn_train True (fst (model s))) x_nodes incidence_1 adjacency_0 = Inr y_hat
          \<and> bce (last_rows (nrows y_train) y_hat) y_train = Inr loss
          \<and> hsn_accuracy y_hat = Inr accuracy
          \<and> (if epoch_i mod test_interval = 0
              then \<exists>y_hat_test test_accuracy.
                  hsn_forward (fst (model s')) x_nodes incidence_1 adjacency_0 = Inr y_hat_test
                \<and> hsn_test_accuracy y_hat_test y_test = Inr test_accuracy
                \<and> printed s' = printed s @
                    [Epoch_line epoch_i (Val loss) accuracy, Test_line test_accuracy]
              else printed s' = printed s @ [Epoch_line epoch_i (Val loss) accuracy]))"
  using assms
  by (auto simp: hsn_epoch_def Let_def bind_err_Inr_iff np_mean_def split: if_splits)

text \<open>
  What an epoch of the simplicial notebook prints when the outputs of its two forward
  passes (of the model before the step and of the model after it) are free of \<open>NaN\<close> and
  have at least four rows: the training accuracy 0, and the test accuracy 0 when the
  evaluation block runs.
\<close>

lemma hsn_epoch_prints_zero:
  assumes ep: "hsn_epoch bce step test_interval x_nodes incidence_1 adjacency_0 s epoch_i = Inr s'"
    and heads: "out_features (hsn_linear (fst (model s))) = 2"
      "out_features (hsn_linear (fst (model s'))) = 2"
    and exact: "\<And>y. hsn_forward (hsn_train True (fst (model s))) x_nodes incidence_1 adjacency_0
          = Inr y \<Longrightarrow> real_valued y \<and> 4 \<le> nrows y"
    and exact': "\<And>y. hsn_forward (fst (model s')) x_nodes incidence_1 adjacency_0 = Inr y
        \<Longrightarrow> real_valued y \<and> 4 \<le> nrows y"
  shows "\<exists>loss. printed s' = printed s @
      Epoch_line epoch_i (Val loss) (Val 0)
        # (if epoch_i mod test_interval = 0 then [Test_line (Val 0)] else [])"
proof -
  let ?m = "hsn_train True (fst (model s))"
  from hsn_epoch_evaluation [OF ep] obtain y_hat loss accuracy where
    f: "hsn_forward ?m x_nodes incidence_1 adjacency_0 = Inr y_hat" and
    a: "hsn_accuracy y_hat = Inr accuracy" and
    p: "if epoch_i mod test_interval = 0
        then \<exists>y_hat_test test_accuracy.
            hsn_forward (fst (model s')) x_nodes incidence_1 adjacency_0 = Inr y_hat_test
          \<and> hsn_test_accuracy y_hat_test y_test = Inr test_accuracy
          \<and> printed s' = printed s @
              [Epoch_line epoch_i (Val loss) accuracy, Test_line test_accuracy]
        else printed s' = printed s @ [Epoch_line epoch_i (Val loss) accuracy]"
    by blast
  have h: "out_features (hsn_linear ?m) = 2" using heads(1) by (simp add: hsn_train_def)
  from exact [OF f] have "real_valued y_hat" "4 \<le> nrows y_hat" by simp_all
  with hsn_forward_exact [OF f h] have "ncols y_hat = 2" "exact_rows y_hat" "rows y_hat \<noteq> []"
    by (auto simp: nrows_def)
  then have "hsn_accuracy y_hat = Inr (Val 0)" by (rule hsn_accuracy_zero)
  with a have acc: "accuracy = Val 0" by simp
  show ?thesis
  proof (cases "epoch_i mod test_interval = 0")
    case False
    with p acc show ?thesis by auto
  next
    case True
    with p obtain y_hat_test test_accuracy where
      ft: "hsn_forward (fst (model s')) x_nodes incidence_1 adjacency_0 = Inr y_hat_test" and
      ta: "hsn_test_accuracy y_hat_test y_test = Inr test_accuracy" and
      pr: "printed s' = printed s @
              [Epoch_line epoch_i (Val loss) accuracy, Test_line test_accuracy]"
      by auto
    from exact' [OF ft] have "real_valued y_hat_test" "4 \<le> nrows y_hat_test" by simp_all
    with hsn_forward_exact [OF ft heads(2)] have
      "ncols y_hat_test = 2" "exact_rows y_hat_test" "4 \<le> length (rows y_hat_test)"
      by (auto simp: nrows_def)
    then have "hsn_test_accuracy y_hat_test y_test = Inr (Val 0)" by (rule hsn_test_accuracy_zero)
    with ta have "test_accuracy = Val 0" by simp
    with pr acc True show ?thesis by auto
  qed
qed

text \<open>
  C6, in the simplicial notebook. Epoch 2 of a run with \<open>test_interval = 2\<close>, with the
  model whose output is \<open>[sigmoid 1, sigmoid (-1)]\<close> for every node (the loss and the
  step are stand-ins: a zero loss and no change of the parameters). On that output the
  decision rule of the training pass gives \<open>[1, 0]\<close> for every node, which is the label of
  the four test nodes, and the rule of the evaluation pass gives \<open>[1, 1]\<close>: the evaluation
  pass does not apply the check of the training pass, and the epoch prints the test
  accuracy 0.
\<close>

theorem hsn_evaluation_check_differs:
  "hsn_epoch (\<lambda>a b. Inr 0) (\<lambda>m. m) 2 karate_x no_matrix no_matrix
      \<lparr>model = (hsn_example, ()), printed = []\<rparr> 2
     = Inr \<lparr>model = (hsn_example, ()),
            printed = [Epoch_line 2 (Val 0) (Val 0), Test_line (Val 0)]\<rparr>
   \<and> hsn_forward hsn_example karate_x no_matrix no_matrix = Inr hsn_example_output
   \<and> rows (hsn_y_pred hsn_example_output) = replicate 34 [Val 1, Val 0]
   \<and> rows (hsn_y_pred_test hsn_example_output) = replicate 34 [Val 1, Val 1]
   \<and> rows y_test = replicate 4 [Val 1, Val 0]"
proof -
  have t: "hsn_train True hsn_example = hsn_example"
    by (simp add: hsn_train_def hsn_example_def)
  have "hsn_accuracy hsn_example_output = Inr (Val 0)"
    using example_output_exact by (intro hsn_accuracy_zero) (simp_all add: hsn_example_output_def)
  moreover have "hsn_test_accuracy hsn_example_output y_test = Inr (Val 0)"
    using example_output_exact
    by (intro hsn_test_accuracy_zero) (simp_all add: hsn_example_output_def)
  ultimately have "hsn_epoch (\<lambda>a b. Inr 0) (\<lambda>m. m) 2 karate_x no_matrix no_matrix
      \<lparr>model = (hsn_example, ()), printed = []\<rparr> 2
     = Inr \<lparr>model = (hsn_example, ()),
            printed = [Epoch_line 2 (Val 0) (Val 0), Test_line (Val 0)]\<rparr>"
    by (simp add: hsn_epoch_def t hsn_forward_example np_mean_def)
  then show ?thesis
    by (simp add: hsn_forward_example y_pred_example y_pred_test_example y_test_rows)
qed

end
